theory Spec2Isabelle
  imports Main "HOL-Library.Word" "HOL-Library.Code_Target_Numeral"
begin

section \<open>Go strings and the library functions the generator calls\<close>

text \<open>
  A Go string that holds valid UTF-8 is modelled as the list of its code points
  (\<open>for _, r := range s\<close> walks exactly this list). \<open>len(s)\<close> counts bytes, so it is
  the sum of the encoded lengths of the code points, not the length of the list.
  String literals of the source are written \<open>gs ''...''\<close>.
\<close>

type_synonym rune = nat
type_synonym gostring = "rune list"

definition gs :: "string \<Rightarrow> gostring" where
  "gs s = map of_char s"

definition RuneLen :: "rune \<Rightarrow> nat" where
  "RuneLen r = (if r < 128 then 1 else if r < 2048 then 2 else if r < 65536 then 3 else 4)"

definition len :: "gostring \<Rightarrow> nat" where
  "len s = sum_list (map RuneLen s)"

text \<open>
  The parts of the standard library whose results come from large tables, or from
  another package, are parameters of the model: the decimal digits beyond Latin-1
  (\<open>unicode.IsDigit\<close>), the lower-case mapping beyond ASCII (\<open>unicode.ToLower\<close>) and
  the escape sequence \<open>%q\<close> writes for one code point (\<open>strconv.Quote\<close>).
\<close>

record golib =
  digitTable :: "rune \<Rightarrow> bool"
  lowerTable :: "rune \<Rightarrow> rune"
  quoteEscape :: "rune \<Rightarrow> gostring"

text \<open>A library instance for the worked examples, none of which reaches a table.\<close>

definition plainLib :: golib where
  "plainLib = \<lparr> digitTable = (\<lambda>r. False), lowerTable = (\<lambda>r. r), quoteEscape = (\<lambda>r. [r]) \<rparr>"

definition IsDigit :: "golib \<Rightarrow> rune \<Rightarrow> bool" where
  "IsDigit L r = (if r \<le> 255 then 48 \<le> r \<and> r \<le> 57 else digitTable L r)"

definition IsControl :: "rune \<Rightarrow> bool" where
  "IsControl r = (r \<le> 31 \<or> (127 \<le> r \<and> r \<le> 159))"

definition IsSpace :: "rune \<Rightarrow> bool" where
  "IsSpace r =
     (if r \<le> 255 then r = 9 \<or> r = 10 \<or> r = 11 \<or> r = 12 \<or> r = 13 \<or> r = 32 \<or> r = 133 \<or> r = 160
      else r = 5760 \<or> (8192 \<le> r \<and> r \<le> 8202) \<or> r = 8232 \<or> r = 8233 \<or> r = 8239
           \<or> r = 8287 \<or> r = 12288)"

definition toLowerRune :: "golib \<Rightarrow> rune \<Rightarrow> rune" where
  "toLowerRune L r = (if r \<le> 127 then (if 65 \<le> r \<and> r \<le> 90 then r + 32 else r) else lowerTable L r)"

definition ToLower :: "golib \<Rightarrow> gostring \<Rightarrow> gostring" where
  "ToLower L s = map (toLowerRune L) s"

definition HasPrefix :: "gostring \<Rightarrow> gostring \<Rightarrow> bool" where
  "HasPrefix s p = (take (length p) s = p)"

definition HasSuffix :: "gostring \<Rightarrow> gostring \<Rightarrow> bool" where
  "HasSuffix s p = (length p \<le> length s \<and> drop (length s - length p) s = p)"

definition ContainsAny :: "gostring \<Rightarrow> gostring \<Rightarrow> bool" where
  "ContainsAny s chars = list_ex (\<lambda>r. r \<in> set chars) s"

definition ContainsRune :: "gostring \<Rightarrow> rune \<Rightarrow> bool" where
  "ContainsRune s c = (c \<in> set s)"

text \<open>\<open>fmt\<close>'s \<open>%d\<close>: decimal digits, with a minus sign for a negative number.\<close>

fun digits10 :: "nat \<Rightarrow> gostring" where
  "digits10 n = (if n < 10 then [48 + n] else digits10 (n div 10) @ [48 + n mod 10])"

declare digits10.simps [simp del]

definition fmtD :: "int \<Rightarrow> gostring" where
  "fmtD i = (if i < 0 then 45 # digits10 (nat (- i)) else digits10 (nat i))"

text \<open>\<open>fmt\<close>'s \<open>%q\<close>: the string between double quotes, each code point escaped.\<close>

definition fmtQ :: "golib \<Rightarrow> gostring \<Rightarrow> gostring" where
  "fmtQ L s = 34 # concat (map (quoteEscape L) s) @ [34]"

section \<open>Errors\<close>

datatype IntKind = Int | Int8 | Int16 | Int32 | Int64

datatype UintKind = Uint | Uint8 | Uint16 | Uint32 | Uint64

datatype yerror =
    InputNil
  | InputPointerNil
  | GenerateFailed yerror
  | ValidationFailed yerror
  | YAMLParsingError
  | InvalidStringContent rune
  | IntOutOfRange IntKind int
  | UintOutOfRange UintKind nat
  | InvalidFloat
  | MarshalFailed
  | OptionsNil
  | InvalidStyle int
  | CommentMapNil nat
  | EmptyFieldPath nat
  | CommentTooLong nat
  | CommentControlChar rune
  | InvalidComment gostring yerror
  | OddIndentation nat
  | IndentationJump nat
  | InvalidKeyValueFormat nat
  | EmptyKey nat
  | KeyNameEmpty
  | KeyNameSpecialChars gostring
  | InvalidKeyName nat yerror
  | GoPanic
  | OutOfFuel

section \<open>Comment styles\<close>

type_synonym CommentStyle = int

definition StyleTop :: CommentStyle where "StyleTop = 0"
definition StyleInline :: CommentStyle where "StyleInline = 1"
definition StyleSmart :: CommentStyle where "StyleSmart = 2"
definition StyleCompact :: CommentStyle where "StyleCompact = 3"
definition StyleMinimal :: CommentStyle where "StyleMinimal = 4"
definition StyleVerbose :: CommentStyle where "StyleVerbose = 5"
definition StyleSpaced :: CommentStyle where "StyleSpaced = 6"
definition StyleGrouped :: CommentStyle where "StyleGrouped = 7"
definition StyleSectioned :: CommentStyle where "StyleSectioned = 8"
definition StyleDoc :: CommentStyle where "StyleDoc = 9"
definition StyleSeparate :: CommentStyle where "StyleSeparate = 10"

lemmas style_ordinals [simp] =
  StyleTop_def StyleInline_def StyleSmart_def StyleCompact_def StyleMinimal_def StyleVerbose_def
  StyleSpaced_def StyleGrouped_def StyleSectioned_def StyleDoc_def StyleSeparate_def

definition GetStyleString :: "int \<Rightarrow> gostring" where
  "GetStyleString style =
     (if style = 0 then gs ''top''
      else if style = 1 then gs ''inline''
      else if style = 2 then gs ''smart''
      else if style = 3 then gs ''compact''
      else if style = 4 then gs ''minimal''
      else if style = 5 then gs ''verbose''
      else if style = 6 then gs ''spaced''
      else if style = 7 then gs ''grouped''
      else if style = 8 then gs ''sectioned''
      else if style = 9 then gs ''doc''
      else if style = 10 then gs ''separate''
      else gs ''smart'')"

definition GetStyleFromString :: "golib \<Rightarrow> gostring \<Rightarrow> CommentStyle" where
  "GetStyleFromString L styleStr =
     (let l = ToLower L styleStr in
      if l = gs ''top'' then StyleTop
      else if l = gs ''inline'' then StyleInline
      else if l = gs ''smart'' then StyleSmart
      else if l = gs ''compact'' then StyleCompact
      else if l = gs ''minimal'' then StyleMinimal
      else if l = gs ''verbose'' then StyleVerbose
      else if l = gs ''spaced'' then StyleSpaced
      else if l = gs ''grouped'' then StyleGrouped
      else if l = gs ''sectioned'' then StyleSectioned
      else if l = gs ''doc'' then StyleDoc
      else if l = gs ''separate'' then StyleSeparate
      else StyleSmart)"

text \<open>The eleven canonical names, in ordinal order, as the specification lists them.\<close>

definition styleNames :: "gostring list" where
  "styleNames = [gs ''top'', gs ''inline'', gs ''smart'', gs ''compact'', gs ''minimal'',
     gs ''verbose'', gs ''spaced'', gs ''grouped'', gs ''sectioned'', gs ''doc'', gs ''separate'']"

definition upperASCII :: "gostring \<Rightarrow> gostring" where
  "upperASCII s = map (\<lambda>r. if 97 \<le> r \<and> r \<le> 122 then r - 32 else r) s"

section \<open>Scalar rendering\<close>

definition generateInt :: "IntKind \<Rightarrow> 64 word \<Rightarrow> yerror + gostring" where
  "generateInt kind intVal =
     (if kind = Int8 \<and> (sint intVal < -128 \<or> sint intVal > 127)
        then Inl (IntOutOfRange Int8 (sint intVal))
      else if kind = Int16 \<and> (sint intVal < -32768 \<or> sint intVal > 32767)
        then Inl (IntOutOfRange Int16 (sint intVal))
      else if kind = Int32 \<and> (sint intVal < -2147483648 \<or> sint intVal > 2147483647)
        then Inl (IntOutOfRange Int32 (sint intVal))
      else Inr (fmtD (sint intVal)))"

definition generateUint :: "UintKind \<Rightarrow> 64 word \<Rightarrow> yerror + gostring" where
  "generateUint kind uintVal =
     (if kind = Uint8 \<and> unat uintVal > 255
        then Inl (UintOutOfRange Uint8 (unat uintVal))
      else if kind = Uint16 \<and> unat uintVal > 65535
        then Inl (UintOutOfRange Uint16 (unat uintVal))
      else if kind = Uint32 \<and> unat uintVal > 4294967295
        then Inl (UintOutOfRange Uint32 (unat uintVal))
      else Inr (fmtD (int (unat uintVal))))"

text \<open>The representable range of a declared width, as the specification means it.\<close>

definition intRange :: "IntKind \<Rightarrow> (int \<times> int) option" where
  "intRange k = (case k of Int8 \<Rightarrow> Some (- (2 ^ 7), 2 ^ 7 - 1) | Int16 \<Rightarrow> Some (- (2 ^ 15), 2 ^ 15 - 1)
     | Int32 \<Rightarrow> Some (- (2 ^ 31), 2 ^ 31 - 1) | _ \<Rightarrow> None)"

definition uintMax :: "UintKind \<Rightarrow> nat option" where
  "uintMax k = (case k of Uint8 \<Rightarrow> Some (2 ^ 8 - 1) | Uint16 \<Rightarrow> Some (2 ^ 16 - 1)
     | Uint32 \<Rightarrow> Some (2 ^ 32 - 1) | _ \<Rightarrow> None)"

definition yamlKeywords :: "gostring list" where
  "yamlKeywords = [gs ''true'', gs ''false'', gs ''yes'', gs ''no'',
     gs ''on'', gs ''off'', gs ''null'', gs ''nil'',
     gs ''~'', gs ''True'', gs ''False'', gs ''TRUE'', gs ''FALSE'',
     gs ''Yes'', gs ''No'', gs ''YES'', gs ''NO'',
     gs ''On'', gs ''Off'', gs ''ON'', gs ''OFF'',
     gs ''Null'', gs ''NULL'', gs ''Nil'', gs ''NIL'']"

text \<open>The characters of \<open>":#{}[]&*!|>\"'%?@`"\<close>.\<close>

definition yamlSpecialChars :: gostring where
  "yamlSpecialChars = [58, 35, 123, 125, 91, 93, 38, 42, 33, 124, 62, 34, 39, 37, 63, 64, 96]"

text \<open>The loop of \<open>isNumericString\<close>; \<open>i\<close> is the byte offset of \<open>r\<close>, as \<open>range\<close> gives it.\<close>

fun numericLoop :: "golib \<Rightarrow> nat \<Rightarrow> gostring \<Rightarrow> bool" where
  "numericLoop L i [] = True"
| "numericLoop L i (r # rs) =
     (if i = 0 \<and> (r = 43 \<or> r = 45) then numericLoop L (i + RuneLen r) rs
      else if \<not> IsDigit L r \<and> r \<noteq> 46 \<and> r \<noteq> 101 \<and> r \<noteq> 69 then False
      else numericLoop L (i + RuneLen r) rs)"

definition isNumericString :: "golib \<Rightarrow> gostring \<Rightarrow> bool" where
  "isNumericString L str =
     (if str = [] then False
      else if \<not> numericLoop L 0 str then False
      else ContainsAny str (gs ''0123456789''))"

definition needsQuoting :: "golib \<Rightarrow> gostring \<Rightarrow> bool" where
  "needsQuoting L str =
     (if str = [] then True
      else if str \<in> set yamlKeywords then True
      else if isNumericString L str then True
      else if ContainsAny str yamlSpecialChars then True
      else if ContainsRune str 10 then True
      else if HasPrefix str (gs '' '') \<or> HasSuffix str (gs '' '') then True
      else if length str > 0 \<and> (hd str = 43 \<or> hd str = 45) then True
      else False)"

fun validateStringContent :: "gostring \<Rightarrow> yerror option" where
  "validateStringContent [] = None"
| "validateStringContent (r # rs) =
     (if IsControl r \<and> r \<noteq> 10 \<and> r \<noteq> 9 \<and> r \<noteq> 13 then Some (InvalidStringContent r)
      else validateStringContent rs)"

definition generateString :: "golib \<Rightarrow> gostring \<Rightarrow> yerror + gostring" where
  "generateString L str =
     (case validateStringContent str of
        Some e \<Rightarrow> Inl e
      | None \<Rightarrow> if needsQuoting L str then Inr (fmtQ L str) else Inr str)"

text \<open>
  The quoting rule in the words of the specification: the string is empty, or one of
  the reserved literals, or looks numeric, or contains one of the special characters
  or a newline, or starts or ends with a space, or starts with a sign. "Looks numeric"
  is: an optional leading sign, then only digits, \<open>.\<close>, \<open>e\<close>, \<open>E\<close>, and at least one of
  the digits 0 to 9 somewhere.
\<close>

definition looksNumeric :: "golib \<Rightarrow> gostring \<Rightarrow> bool" where
  "looksNumeric L s =
     (s \<noteq> []
      \<and> (\<forall>r\<in>set (if hd s = 43 \<or> hd s = 45 then tl s else s). IsDigit L r \<or> r = 46 \<or> r = 101 \<or> r = 69)
      \<and> (\<exists>r\<in>set s. 48 \<le> r \<and> r \<le> 57))"

definition quotedBySpec :: "golib \<Rightarrow> gostring \<Rightarrow> bool" where
  "quotedBySpec L s =
     (s = [] \<or> s \<in> set yamlKeywords \<or> looksNumeric L s
      \<or> (\<exists>r\<in>set s. r \<in> set yamlSpecialChars)
      \<or> 10 \<in> set s
      \<or> (s \<noteq> [] \<and> (hd s = 32 \<or> last s = 32))
      \<or> (s \<noteq> [] \<and> (hd s = 43 \<or> hd s = 45)))"


section \<open>More string functions\<close>

text \<open>\<open>strings.Split\<close> with a separator of one character; the result is never empty.\<close>

fun Split :: "gostring \<Rightarrow> rune \<Rightarrow> gostring list" where
  "Split [] sep = [[]]"
| "Split (r # rs) sep =
     (if r = sep then [] # Split rs sep
      else case Split rs sep of [] \<Rightarrow> [[r]] | w # ws \<Rightarrow> (r # w) # ws)"

fun Join :: "gostring list \<Rightarrow> gostring \<Rightarrow> gostring" where
  "Join [] sep = []"
| "Join [w] sep = w"
| "Join (w # v # ws) sep = w @ sep @ Join (v # ws) sep"

text \<open>\<open>strings.ReplaceAll\<close> where the old string is one character.\<close>

definition ReplaceAll :: "gostring \<Rightarrow> rune \<Rightarrow> gostring \<Rightarrow> gostring" where
  "ReplaceAll s old new = concat (map (\<lambda>r. if r = old then new else [r]) s)"

text \<open>\<open>strings.Fields\<close>: the maximal runs of characters that are not white space.\<close>

function Fields :: "gostring \<Rightarrow> gostring list" where
  "Fields s =
     (case dropWhile IsSpace s of
        [] \<Rightarrow> []
      | r # rs \<Rightarrow> (r # takeWhile (\<lambda>x. \<not> IsSpace x) rs) # Fields (dropWhile (\<lambda>x. \<not> IsSpace x) rs))"
  by pat_completeness auto
termination
proof (relation "measure length")
  show "wf (measure length)" by simp
next
  fix s :: gostring and r rs
  assume a: "dropWhile IsSpace s = r # rs"
  have "length (dropWhile (\<lambda>x. \<not> IsSpace x) rs) \<le> length rs"
    by (rule length_dropWhile_le)
  moreover have "length (r # rs) \<le> length s"
    using length_dropWhile_le [of IsSpace s] a by simp
  ultimately show "(dropWhile (\<lambda>x. \<not> IsSpace x) rs, s) \<in> measure length"
    by simp
qed

declare Fields.simps [simp del]

definition TrimPrefix :: "gostring \<Rightarrow> gostring \<Rightarrow> gostring" where
  "TrimPrefix s p = (if HasPrefix s p then drop (length p) s else s)"

definition TrimSpace :: "gostring \<Rightarrow> gostring" where
  "TrimSpace s = rev (dropWhile IsSpace (rev (dropWhile IsSpace s)))"

text \<open>\<open>strings.TrimLeft\<close> and \<open>strings.TrimRight\<close> with a cutset of one character.\<close>

definition TrimLeft :: "gostring \<Rightarrow> rune \<Rightarrow> gostring" where
  "TrimLeft s c = dropWhile (\<lambda>r. r = c) s"

definition TrimRight :: "gostring \<Rightarrow> rune \<Rightarrow> gostring" where
  "TrimRight s c = rev (dropWhile (\<lambda>r. r = c) (rev s))"

definition Repeat :: "gostring \<Rightarrow> nat \<Rightarrow> gostring" where
  "Repeat s n = concat (replicate n s)"

section \<open>Options and their validation\<close>

text \<open>
  A \<open>map[string]string\<close> is \<open>None\<close> when it is nil and otherwise the list of its
  entries in the order \<open>range\<close> happens to visit them; \<open>*Options\<close> is an option.
\<close>

record Options =
  Style :: CommentStyle
  Comments :: "(gostring \<times> gostring) list option list"

fun commentControlLoop :: "gostring \<Rightarrow> yerror option" where
  "commentControlLoop [] = None"
| "commentControlLoop (r # rs) =
     (if IsControl r \<and> r \<noteq> 10 \<and> r \<noteq> 9 \<and> r \<noteq> 13 then Some (CommentControlChar r)
      else commentControlLoop rs)"

definition validateCommentContent :: "gostring \<Rightarrow> yerror option" where
  "validateCommentContent comment =
     (if len comment > 1000 then Some (CommentTooLong (len comment))
      else commentControlLoop comment)"

fun validateCommentMap :: "nat \<Rightarrow> (gostring \<times> gostring) list \<Rightarrow> yerror option" where
  "validateCommentMap i [] = None"
| "validateCommentMap i ((fieldPath, comment) # rest) =
     (if fieldPath = [] then Some (EmptyFieldPath i)
      else case validateCommentContent comment of
             Some e \<Rightarrow> Some (InvalidComment fieldPath e)
           | None \<Rightarrow> validateCommentMap i rest)"

fun validateCommentMaps :: "nat \<Rightarrow> (gostring \<times> gostring) list option list \<Rightarrow> yerror option" where
  "validateCommentMaps i [] = None"
| "validateCommentMaps i (commentMap # rest) =
     (case commentMap of
        None \<Rightarrow> Some (CommentMapNil i)
      | Some entries \<Rightarrow>
          (case validateCommentMap i entries of
             Some e \<Rightarrow> Some e
           | None \<Rightarrow> validateCommentMaps (i + 1) rest))"

definition ValidateOptions :: "Options option \<Rightarrow> yerror option" where
  "ValidateOptions options =
     (case options of
        None \<Rightarrow> Some OptionsNil
      | Some opts \<Rightarrow>
          if Style opts < 0 \<or> Style opts > StyleSeparate then Some (InvalidStyle (Style opts))
          else validateCommentMaps 0 (Comments opts))"

text \<open>A control character other than newline, tab and carriage return occurs in the comment.\<close>

definition badControl :: "gostring \<Rightarrow> bool" where
  "badControl c = (\<exists>r\<in>set c. IsControl r \<and> r \<noteq> 10 \<and> r \<noteq> 9 \<and> r \<noteq> 13)"

section \<open>Comments of a field\<close>

text \<open>
  What the generator reads of a \<open>reflect.StructField\<close>: its name, whether it is
  exported, its tag (the key/value pairs that \<open>Tag.Get\<close> looks up) and the name of
  its type.
\<close>

record StructField =
  GoName :: gostring
  IsExported :: bool
  Tag :: "(gostring \<times> gostring) list"
  TypeString :: gostring

definition TagGet :: "(gostring \<times> gostring) list \<Rightarrow> gostring \<Rightarrow> gostring" where
  "TagGet tag key = (case map_of tag key of None \<Rightarrow> [] | Some v \<Rightarrow> v)"

definition sanitizeComment :: "gostring \<Rightarrow> gostring" where
  "sanitizeComment comment =
     (let c1 = ReplaceAll comment 10 (gs '' '');
          c2 = ReplaceAll c1 9 (gs '' '');
          c3 = ReplaceAll c2 13 (gs '' '');
          words = Fields c3
      in Join words (gs '' ''))"

text \<open>The first override mapping that has the path wins; reading a nil map finds nothing.\<close>

fun lookupComments :: "(gostring \<times> gostring) list option list \<Rightarrow> gostring \<Rightarrow> gostring option" where
  "lookupComments [] fieldPath = None"
| "lookupComments (commentMap # rest) fieldPath =
     (case commentMap of
        None \<Rightarrow> lookupComments rest fieldPath
      | Some entries \<Rightarrow>
          (case map_of entries fieldPath of
             Some comment \<Rightarrow> Some comment
           | None \<Rightarrow> lookupComments rest fieldPath))"

text \<open>The first part of a tag that starts with \<open>comment=\<close>, without that prefix.\<close>

fun commentPart :: "gostring list \<Rightarrow> gostring option" where
  "commentPart [] = None"
| "commentPart (part # parts) =
     (if HasPrefix part (gs ''comment='') then Some (TrimPrefix part (gs ''comment=''))
      else commentPart parts)"

definition tagComment :: "(gostring \<times> gostring) list \<Rightarrow> gostring \<Rightarrow> gostring option" where
  "tagComment tag key =
     (if TagGet tag key \<noteq> [] then commentPart (Split (TagGet tag key) 44) else None)"

definition getComment :: "StructField \<Rightarrow> gostring \<Rightarrow> Options \<Rightarrow> gostring" where
  "getComment field fieldPath options =
     (case lookupComments (Comments options) fieldPath of
        Some comment \<Rightarrow> sanitizeComment comment
      | None \<Rightarrow>
          (case tagComment (Tag field) (gs ''yamlc'') of
             Some c \<Rightarrow> sanitizeComment c
           | None \<Rightarrow>
               if TagGet (Tag field) (gs ''comment'') \<noteq> []
               then sanitizeComment (TagGet (Tag field) (gs ''comment''))
               else (case tagComment (Tag field) (gs ''yaml'') of
                       Some c \<Rightarrow> sanitizeComment c
                     | None \<Rightarrow> [])))"

section \<open>Structural validation\<close>

text \<open>
  A slice of ints is its backing array, whose length is the capacity, and its
  length. Slicing beyond the capacity and indexing beyond the length panic.
  \<open>append\<close> writes into the backing array while there is room and otherwise moves
  the elements to a new array, whose capacity the runtime chooses: \<open>grow n\<close> for \<open>n\<close>
  elements (never less than \<open>n\<close>). The language does not fix that choice, so \<open>grow\<close> is
  a parameter of the validator's model. For the one int that the validator appends
  to its empty stack, Go toolchains give capacity 1 (an array of the heap's smallest
  size class) or capacity 4 (a buffer of 32 bytes), depending on the version.
\<close>

record intslice =
  backing :: "int list"
  slen :: nat

definition nilSlice :: intslice where
  "nilSlice = \<lparr> backing = [], slen = 0 \<rparr>"

definition appendInt :: "(nat \<Rightarrow> nat) \<Rightarrow> intslice \<Rightarrow> int \<Rightarrow> intslice" where
  "appendInt grow s x =
     (if slen s < length (backing s)
      then \<lparr> backing = (backing s)[slen s := x], slen = slen s + 1 \<rparr>
      else \<lparr> backing = take (slen s) (backing s) @ [x]
                 @ replicate (max (slen s + 1) (grow (slen s + 1)) - (slen s + 1)) 0,
             slen = slen s + 1 \<rparr>)"

definition reslice :: "intslice \<Rightarrow> nat \<Rightarrow> intslice option" where
  "reslice s n = (if n \<le> length (backing s) then Some (s\<lparr> slen := n \<rparr>) else None)"

text \<open>What a call does: it returns (nil or an error), or it panics.\<close>

datatype vresult = Returns "yerror option" | Panics

definition validateKeyName :: "gostring \<Rightarrow> yerror option" where
  "validateKeyName key =
     (if key = [] then Some KeyNameEmpty
      else if (HasPrefix key [34] \<and> HasSuffix key [34]) \<or> (HasPrefix key [39] \<and> HasSuffix key [39])
        then None
      else if ContainsAny key yamlSpecialChars then Some (KeyNameSpecialChars key)
      else None)"

text \<open>\<open>strings.SplitN(s, sep, 2)\<close> with a separator of one character.\<close>

definition SplitN2 :: "gostring \<Rightarrow> rune \<Rightarrow> gostring list" where
  "SplitN2 s sep =
     (if sep \<in> set s then [takeWhile (\<lambda>r. r \<noteq> sep) s, tl (dropWhile (\<lambda>r. r \<noteq> sep) s)] else [s])"

text \<open>The indentation check of one line: the new stack, or the way the call ends.\<close>

definition adjustStack :: "(nat \<Rightarrow> nat) \<Rightarrow> intslice \<Rightarrow> nat \<Rightarrow> nat \<Rightarrow> vresult + intslice" where
  "adjustStack grow indentStack indent lineNum =
     (if slen indentStack = 0 then Inr (appendInt grow indentStack (int indent))
      else
        let currentLevel = indent div 2 in
        if currentLevel > slen indentStack then Inl (Returns (Some (IndentationJump lineNum)))
        else (case reslice indentStack (currentLevel + 1) of
                None \<Rightarrow> Inl Panics
              | Some st \<Rightarrow>
                  if currentLevel < slen st
                  then Inr (st\<lparr> backing := (backing st)[currentLevel := int indent] \<rparr>)
                  else Inr (appendInt grow st (int indent))))"

definition checkKeyValue :: "gostring \<Rightarrow> nat \<Rightarrow> yerror option" where
  "checkKeyValue trimmed lineNum =
     (if ContainsRune trimmed 58 \<and> \<not> HasPrefix trimmed (gs ''-'') then
        let parts = SplitN2 trimmed 58 in
        if length parts \<noteq> 2 then Some (InvalidKeyValueFormat lineNum)
        else
          let key = TrimSpace (hd parts) in
          if key = [] then Some (EmptyKey lineNum)
          else (case validateKeyName key of
                  Some e \<Rightarrow> Some (InvalidKeyName lineNum e)
                | None \<Rightarrow> None)
      else None)"

fun validateLines :: "(nat \<Rightarrow> nat) \<Rightarrow> nat \<Rightarrow> intslice \<Rightarrow> gostring list \<Rightarrow> vresult" where
  "validateLines grow i indentStack [] = Returns None"
| "validateLines grow i indentStack (line # rest) =
     (let lineNum = i + 1; trimmed = TrimSpace line in
      if trimmed = [] \<or> HasPrefix trimmed (gs ''#'') then validateLines grow (i + 1) indentStack rest
      else
        let indent = len line - len (TrimLeft line 32) in
        if indent mod 2 \<noteq> 0 then Returns (Some (OddIndentation lineNum))
        else (case adjustStack grow indentStack indent lineNum of
                Inl r \<Rightarrow> r
              | Inr st \<Rightarrow>
                  (case checkKeyValue trimmed lineNum of
                     Some e \<Rightarrow> Returns (Some e)
                   | None \<Rightarrow> validateLines grow (i + 1) st rest)))"

definition ValidateStructure :: "(nat \<Rightarrow> nat) \<Rightarrow> gostring \<Rightarrow> vresult" where
  "ValidateStructure grow data = validateLines grow 0 nilSlice (Split data 10)"

section \<open>Values as the generator sees them\<close>

text \<open>
  A \<open>reflect.Value\<close>, by kind. Integers carry the 64 bits that \<open>Int()\<close> and \<open>Uint()\<close>
  return; a float is NaN, infinite, or finite with the text \<open>fmt\<close> writes for it at
  the precision of its kind; a struct is the list of its fields in declaration order;
  a map is the list of its entries in the order \<open>MapRange\<close> visits them, each key
  given by its \<open>%v\<close> text; pointers and interfaces are nil or hold a value; a value
  of any other kind carries whether it can be turned into an interface and its \<open>%v\<close>
  text.
\<close>

datatype FloatKind = Float32 | Float64

datatype gfloat = FNaN | FInf | FFinite gostring

datatype gval =
    VInvalid
  | VBool bool
  | VInt IntKind "64 word"
  | VUint UintKind "64 word"
  | VFloat FloatKind gfloat
  | VString gostring
  | VStruct "(StructField \<times> gval) list"
  | VMap "(gostring \<times> gval) list"
  | VSlice "gval list"
  | VArray "gval list"
  | VPtr "gval option"
  | VInterface "gval option"
  | VOther bool gostring

record FieldInfo =
  Name :: gostring
  Comment :: gostring
  Field :: gval
  FieldType :: StructField
  HasChildren :: bool
  FieldPath :: gostring

text \<open>The recursive call \<open>generateValue(val, fieldPath, indent, options)\<close>, options fixed.\<close>

type_synonym render = "gval \<Rightarrow> gostring \<Rightarrow> nat \<Rightarrow> yerror + gostring"

fun isSlice :: "gval \<Rightarrow> bool" where
  "isSlice (VSlice xs) = True"
| "isSlice v = False"

fun isArray :: "gval \<Rightarrow> bool" where
  "isArray (VArray xs) = True"
| "isArray v = False"

text \<open>\<open>Len()\<close> of a slice, array or map.\<close>

fun Len :: "gval \<Rightarrow> nat" where
  "Len (VSlice xs) = length xs"
| "Len (VArray xs) = length xs"
| "Len (VMap es) = length es"
| "Len v = 0"

fun isComplexType :: "gval \<Rightarrow> bool" where
  "isComplexType VInvalid = False"
| "isComplexType (VStruct fs) = True"
| "isComplexType (VMap es) = True"
| "isComplexType (VSlice xs) = (length xs > 0)"
| "isComplexType (VArray xs) = (length xs > 0)"
| "isComplexType (VPtr None) = False"
| "isComplexType (VPtr (Some v)) = isComplexType v"
| "isComplexType (VInterface None) = False"
| "isComplexType (VInterface (Some v)) = isComplexType v"
| "isComplexType v = False"

fun hasChildren :: "gval \<Rightarrow> bool" where
  "hasChildren VInvalid = False"
| "hasChildren (VStruct fs) = (length fs > 0)"
| "hasChildren (VMap es) = (length es > 0)"
| "hasChildren (VSlice []) = False"
| "hasChildren (VSlice (firstItem # xs)) = isComplexType firstItem"
| "hasChildren (VArray []) = False"
| "hasChildren (VArray (firstItem # xs)) = isComplexType firstItem"
| "hasChildren (VPtr None) = False"
| "hasChildren (VPtr (Some v)) = hasChildren v"
| "hasChildren (VInterface None) = False"
| "hasChildren (VInterface (Some v)) = hasChildren v"
| "hasChildren v = False"

section \<open>Field collection\<close>

definition isValidKeyName :: "gostring \<Rightarrow> bool" where
  "isValidKeyName key =
     (if key = [] then False
      else if (48 \<le> hd key \<and> hd key \<le> 57) \<or> hd key = 45 \<or> hd key = 95 then False
      else if ContainsAny key yamlSpecialChars then False
      else if key \<in> set yamlKeywords then False
      else True)"

text \<open>The name a tag gives, if it gives one: \<open>-\<close> for the tag \<open>-\<close>, else its first part when valid.\<close>

definition tagName :: "gostring \<Rightarrow> gostring option" where
  "tagName tagValue =
     (if tagValue \<noteq> [] then
        (if tagValue = gs ''-'' then Some (gs ''-'')
         else
           let parts = Split tagValue 44 in
           if hd parts \<noteq> [] \<and> hd parts \<noteq> gs ''-'' \<and> \<not> ContainsRune (hd parts) 61
              \<and> isValidKeyName (hd parts)
           then Some (hd parts) else None)
      else None)"

definition getFieldName :: "StructField \<Rightarrow> gostring" where
  "getFieldName fieldType =
     (case tagName (TagGet (Tag fieldType) (gs ''yaml'')) of
        Some n \<Rightarrow> n
      | None \<Rightarrow>
          (case tagName (TagGet (Tag fieldType) (gs ''yamlc'')) of
             Some n \<Rightarrow> n
           | None \<Rightarrow> gs ''-''))"

definition buildFieldPath :: "gostring \<Rightarrow> gostring \<Rightarrow> gostring" where
  "buildFieldPath fieldPath fieldName =
     (if fieldPath \<noteq> [] then fieldPath @ gs ''.'' @ fieldName else fieldName)"

fun collectFieldInfo :: "(StructField \<times> gval) list \<Rightarrow> gostring \<Rightarrow> Options \<Rightarrow> FieldInfo list" where
  "collectFieldInfo [] fieldPath options = []"
| "collectFieldInfo ((fieldType, field) # rest) fieldPath options =
     (if \<not> IsExported fieldType then collectFieldInfo rest fieldPath options
      else
        let fieldName = getFieldName fieldType in
        if fieldName = gs ''-'' then collectFieldInfo rest fieldPath options
        else
          let currentFieldPath = buildFieldPath fieldPath fieldName in
          \<lparr> Name = fieldName,
            Comment = getComment fieldType currentFieldPath options,
            Field = field,
            FieldType = fieldType,
            HasChildren = hasChildren field,
            FieldPath = currentFieldPath \<rparr> # collectFieldInfo rest fieldPath options)"

section \<open>Display width\<close>

definition isWideChar :: "rune \<Rightarrow> bool" where
  "isWideChar r =
     ((r \<ge> 0x1100 \<and> r \<le> 0x115F) \<or> (r \<ge> 0x2E80 \<and> r \<le> 0x9FFF) \<or> (r \<ge> 0xAC00 \<and> r \<le> 0xD7AF)
      \<or> (r \<ge> 0xF900 \<and> r \<le> 0xFAFF) \<or> (r \<ge> 0xFE30 \<and> r \<le> 0xFE4F) \<or> (r \<ge> 0xFF00 \<and> r \<le> 0xFFEF))"

fun getDisplayWidth :: "gostring \<Rightarrow> int" where
  "getDisplayWidth [] = 0"
| "getDisplayWidth (r # rs) = (if isWideChar r then 2 else 1) + getDisplayWidth rs"

fun calculateMaxFieldNameLenFrom :: "int \<Rightarrow> FieldInfo list \<Rightarrow> int" where
  "calculateMaxFieldNameLenFrom maxLen [] = maxLen"
| "calculateMaxFieldNameLenFrom maxLen (field # rest) =
     (let fieldNameLen = int (len (Name field)) + 1 in
      calculateMaxFieldNameLenFrom (if fieldNameLen > maxLen then fieldNameLen else maxLen) rest)"

definition calculateMaxFieldNameLen :: "FieldInfo list \<Rightarrow> int" where
  "calculateMaxFieldNameLen flds = calculateMaxFieldNameLenFrom 0 flds"

definition shouldAddSpacing :: "CommentStyle \<Rightarrow> nat \<Rightarrow> nat \<Rightarrow> bool" where
  "shouldAddSpacing style currentIndex totalFields =
     (if int currentIndex \<ge> int totalFields - 1 then False
      else style = StyleSpaced \<or> style = StyleGrouped \<or> style = StyleSectioned)"

section \<open>Field rendering\<close>

definition normalizeTrailingNewlines1 :: "gostring \<Rightarrow> gostring" where
  "normalizeTrailingNewlines1 content =
     (if HasSuffix content [10] then TrimRight content 10 @ [10] else content)"

definition getIndentLevel :: "gostring \<Rightarrow> nat" where
  "getIndentLevel indentStr = len indentStr div 2"

definition isCommentLine :: "gostring \<Rightarrow> bool" where
  "isCommentLine line = HasPrefix (TrimSpace line) (gs ''#'')"

definition isBlankLine :: "gostring \<Rightarrow> bool" where
  "isBlankLine line = (TrimSpace line = [])"

definition generateFieldValue :: "render \<Rightarrow> FieldInfo \<Rightarrow> gostring \<Rightarrow> yerror + gostring" where
  "generateFieldValue gv field indentStr =
     (if HasChildren field \<or> isSlice (Field field) \<or> isArray (Field field) then
        let hasVisibleChildren = HasChildren field
              \<or> (isSlice (Field field) \<and> Len (Field field) > 0)
              \<or> (isArray (Field field) \<and> Len (Field field) > 0);
            nl = (if hasVisibleChildren then [10] else [])
        in (case gv (Field field) (FieldPath field) (getIndentLevel indentStr + 1) of
              Inl err \<Rightarrow> Inl err
            | Inr fieldValue \<Rightarrow>
                if isSlice (Field field) \<or> isArray (Field field) then
                  let lines = Split fieldValue 10;
                      commentLines = map (\<lambda>line. line @ [10])
                        (filter (\<lambda>line. \<not> isBlankLine line \<and> isCommentLine line) lines);
                      fieldLines = map (\<lambda>line. normalizeTrailingNewlines1 (line @ [10]))
                        (filter (\<lambda>line. \<not> isBlankLine line \<and> \<not> isCommentLine line) lines)
                  in Inr (nl
                      @ (if length commentLines > 0
                         then normalizeTrailingNewlines1 (concat commentLines) else [])
                      @ (if length fieldLines > 0
                         then normalizeTrailingNewlines1 (concat fieldLines) else []))
                else Inr (nl @ fieldValue))
      else (case gv (Field field) (FieldPath field) 0 of
              Inl err \<Rightarrow> Inl err
            | Inr fieldValue \<Rightarrow> Inr (gs '' '' @ TrimSpace fieldValue)))"

definition generateTopStyleField :: "render \<Rightarrow> FieldInfo \<Rightarrow> gostring \<Rightarrow> yerror + gostring" where
  "generateTopStyleField gv field indentStr =
     (case generateFieldValue gv field indentStr of
        Inl err \<Rightarrow> Inl err
      | Inr v \<Rightarrow>
          Inr ((if Comment field \<noteq> [] then indentStr @ gs ''# '' @ Comment field @ [10] else [])
               @ indentStr @ Name field @ gs '': '' @ v))"

definition generateVerboseStyleField :: "render \<Rightarrow> FieldInfo \<Rightarrow> gostring \<Rightarrow> yerror + gostring" where
  "generateVerboseStyleField gv field indentStr =
     (case generateFieldValue gv field indentStr of
        Inl err \<Rightarrow> Inl err
      | Inr v \<Rightarrow>
          Inr ((if Comment field \<noteq> []
                then indentStr @ gs ''# '' @ Comment field @ gs '' ('' @ TypeString (FieldType field)
                     @ gs '')'' @ [10]
                else [])
               @ indentStr @ Name field @ gs '':'' @ v))"

fun isEmptyContainer :: "gval \<Rightarrow> bool" where
  "isEmptyContainer (VSlice xs) = (length xs = 0)"
| "isEmptyContainer (VArray xs) = (length xs = 0)"
| "isEmptyContainer (VMap es) = (length es = 0)"
| "isEmptyContainer (VStruct fs) = False"
| "isEmptyContainer v = False"

fun getEmptyContainerValue :: "gval \<Rightarrow> gostring" where
  "getEmptyContainerValue (VSlice xs) = gs ''[]''"
| "getEmptyContainerValue (VArray xs) = gs ''[]''"
| "getEmptyContainerValue (VMap es) = gs ''{}''"
| "getEmptyContainerValue (VStruct fs) = gs ''{}''"
| "getEmptyContainerValue v = []"

text \<open>\<open>strings.Repeat(" ", n)\<close> for an \<open>int\<close>: it panics when \<open>n\<close> is negative.\<close>

definition spaces :: "int \<Rightarrow> yerror + gostring" where
  "spaces n = (if n < 0 then Inl GoPanic else Inr (replicate (nat n) 32))"

definition generateInlineStyleField ::
    "render \<Rightarrow> FieldInfo \<Rightarrow> gostring \<Rightarrow> int \<Rightarrow> yerror + gostring" where
  "generateInlineStyleField gv field indentStr maxFieldNameLen0 =
     (let maxFieldNameLen = maxFieldNameLen0 + 30;
          fieldNamePart = Name field @ gs '':'';
          currentFieldNameLen = getDisplayWidth fieldNamePart
      in
      if HasChildren field then
        (if Comment field \<noteq> [] then
           (if isEmptyContainer (Field field) then
              let emptyValue = getEmptyContainerValue (Field field);
                  alignSpaces = maxFieldNameLen - currentFieldNameLen - getDisplayWidth emptyValue + 2;
                  alignSpaces = (if alignSpaces < 1 then 1 else alignSpaces)
              in Inr (indentStr @ fieldNamePart @ gs '' '' @ emptyValue
                      @ replicate (nat alignSpaces) 32 @ gs ''# '' @ Comment field @ [10])
            else
              let alignSpaces = maxFieldNameLen - currentFieldNameLen + 2;
                  alignSpaces = (if alignSpaces < 1 then 1 else alignSpaces)
              in (case generateFieldValue gv field indentStr of
                    Inl err \<Rightarrow> Inl err
                  | Inr v \<Rightarrow> Inr (indentStr @ fieldNamePart @ replicate (nat alignSpaces) 32
                                   @ gs ''# '' @ Comment field @ v)))
         else (case generateFieldValue gv field indentStr of
                 Inl err \<Rightarrow> Inl err
               | Inr v \<Rightarrow> Inr (indentStr @ fieldNamePart @ gs '' '' @ v)))
      else if isSlice (Field field) \<or> isArray (Field field) then
        let hasVisibleChildren = HasChildren field
              \<or> (isSlice (Field field) \<and> Len (Field field) > 0)
              \<or> (isArray (Field field) \<and> Len (Field field) > 0)
        in
        (case (if hasVisibleChildren then
                 (if Comment field \<noteq> [] then
                    let fieldNameAndValueWidth = getDisplayWidth (indentStr @ Name field @ gs '': '');
                        alignSpaces = maxFieldNameLen + getDisplayWidth indentStr - fieldNameAndValueWidth
                    in (case spaces alignSpaces of
                          Inl err \<Rightarrow> Inl err
                        | Inr sp \<Rightarrow> Inr (indentStr @ Name field @ gs '':'' @ sp @ gs ''# ''
                                          @ Comment field, 1))
                  else Inr (indentStr @ Name field @ gs '':'', 1))
               else Inr (indentStr @ Name field @ gs '': '', 0)) of
           Inl err \<Rightarrow> Inl err
         | Inr (head, indent) \<Rightarrow>
             (case gv (Field field) (FieldPath field) indent of
                Inl err \<Rightarrow> Inl err
              | Inr fieldValue0 \<Rightarrow>
                  let fieldValue = TrimRight fieldValue0 10 in
                  if Comment field \<noteq> [] then
                    (if hasVisibleChildren then Inr (head @ fieldValue @ [10])
                     else
                       let fieldNameAndValueWidth =
                             getDisplayWidth (indentStr @ Name field @ gs '': '' @ fieldValue);
                           alignSpaces = maxFieldNameLen + getDisplayWidth indentStr
                                         - fieldNameAndValueWidth + 2;
                           alignSpaces = (if alignSpaces < 1 then 1 else alignSpaces)
                       in Inr (head @ fieldValue @ replicate (nat alignSpaces) 32 @ gs ''# ''
                               @ Comment field @ [10]))
                  else Inr (head @ fieldValue @ [10])))
      else
        (case gv (Field field) (FieldPath field) 0 of
           Inl err \<Rightarrow> Inl err
         | Inr fieldValue0 \<Rightarrow>
             let fieldValue = TrimRight fieldValue0 10 in
             if Comment field \<noteq> [] then
               let actualFieldLine = indentStr @ Name field @ gs '': '' @ fieldValue;
                   fieldLineWidth = getDisplayWidth actualFieldLine;
                   targetWidth = getDisplayWidth indentStr + maxFieldNameLen;
                   alignSpaces = targetWidth - fieldLineWidth + 2;
                   alignSpaces = (if alignSpaces < 1 then 1 else alignSpaces)
               in Inr (indentStr @ Name field @ gs '': '' @ fieldValue
                       @ replicate (nat alignSpaces) 32 @ gs ''# '' @ Comment field @ [10])
             else Inr (indentStr @ Name field @ gs '': '' @ fieldValue @ [10])))"

definition generateCompactStyleField ::
    "render \<Rightarrow> FieldInfo \<Rightarrow> gostring \<Rightarrow> Options \<Rightarrow> yerror + gostring" where
  "generateCompactStyleField gv field indentStr options =
     (if HasChildren field then
        (if Comment field \<noteq> [] then
           (case Field field of
              VSlice xs \<Rightarrow>
                Inr (if length xs = 0
                     then indentStr @ Name field @ gs '': [] # '' @ Comment field @ [10] else [])
            | VArray xs \<Rightarrow>
                Inr (if length xs = 0
                     then indentStr @ Name field @ gs '': [] # '' @ Comment field @ [10] else [])
            | VMap es \<Rightarrow>
                Inr (if length es = 0
                     then indentStr @ Name field @ gs '': {} # '' @ Comment field @ [10] else [])
            | VStruct fs \<Rightarrow>
                Inr (if length (collectFieldInfo fs (FieldPath field) options) = 0
                     then indentStr @ Name field @ gs '': {} # '' @ Comment field @ [10] else [])
            | _ \<Rightarrow>
                (case generateFieldValue gv field indentStr of
                   Inl err \<Rightarrow> Inl err
                 | Inr v \<Rightarrow> Inr (indentStr @ Name field @ gs '':  # '' @ Comment field @ v)))
         else (case generateFieldValue gv field indentStr of
                 Inl err \<Rightarrow> Inl err
               | Inr v \<Rightarrow> Inr (indentStr @ Name field @ gs '': '' @ v)))
      else
        let hasVisibleChildren =
              (isSlice (Field field) \<or> isArray (Field field)) \<and> Len (Field field) > 0;
            head = (if hasVisibleChildren \<and> Comment field \<noteq> []
                    then indentStr @ Name field @ gs '': # '' @ Comment field
                    else indentStr @ Name field @ gs '': '');
            indent = (if hasVisibleChildren then 1 else 0)
        in (case gv (Field field) (FieldPath field) indent of
              Inl err \<Rightarrow> Inl err
            | Inr fieldValue0 \<Rightarrow>
                let fieldValue = TrimRight fieldValue0 10 in
                if Comment field \<noteq> [] \<and> \<not> hasVisibleChildren
                then Inr (head @ fieldValue @ gs '' # '' @ Comment field @ [10])
                else Inr (head @ fieldValue @ [10])))"

definition generateFieldWithComment ::
    "render \<Rightarrow> FieldInfo \<Rightarrow> nat \<Rightarrow> CommentStyle \<Rightarrow> int \<Rightarrow> Options \<Rightarrow> yerror + gostring" where
  "generateFieldWithComment gv field indent commentStyle0 maxFieldNameLen options =
     (let indentStr = Repeat (gs ''  '') indent;
          commentStyle = (if commentStyle0 = StyleSmart
                          then (if HasChildren field then StyleTop else StyleInline)
                          else commentStyle0)
      in
      if commentStyle = StyleTop then generateTopStyleField gv field indentStr
      else if commentStyle = StyleInline then generateInlineStyleField gv field indentStr maxFieldNameLen
      else if commentStyle = StyleCompact then generateCompactStyleField gv field indentStr options
      else if commentStyle = StyleVerbose then generateVerboseStyleField gv field indentStr
      else if commentStyle = StyleSpaced \<or> commentStyle = StyleGrouped
        then generateTopStyleField gv field indentStr
      else generateTopStyleField gv field indentStr)"

fun structDefaultLoop ::
    "render \<Rightarrow> Options \<Rightarrow> nat \<Rightarrow> int \<Rightarrow> nat \<Rightarrow> nat \<Rightarrow> FieldInfo list \<Rightarrow> yerror + gostring" where
  "structDefaultLoop gv options indent maxFieldNameLen totalFields i [] = Inr []"
| "structDefaultLoop gv options indent maxFieldNameLen totalFields i (field # rest) =
     (case generateFieldWithComment gv field indent (Style options) maxFieldNameLen options of
        Inl err \<Rightarrow> Inl err
      | Inr s \<Rightarrow>
          (case structDefaultLoop gv options indent maxFieldNameLen totalFields (i + 1) rest of
             Inl err \<Rightarrow> Inl err
           | Inr r \<Rightarrow>
               Inr (s @ (if shouldAddSpacing (Style options) i totalFields then [10] else []) @ r)))"

definition generateStructDefault ::
    "render \<Rightarrow> FieldInfo list \<Rightarrow> nat \<Rightarrow> Options \<Rightarrow> yerror + gostring" where
  "generateStructDefault gv flds indent options =
     structDefaultLoop gv options indent (calculateMaxFieldNameLen flds) (length flds) 0 flds"

text \<open>The loop that \<open>generateStructDoc\<close> and \<open>generateStructSeparate\<close> share.\<close>

fun plainFieldsLoop :: "render \<Rightarrow> nat \<Rightarrow> FieldInfo list \<Rightarrow> yerror + gostring" where
  "plainFieldsLoop gv indent [] = Inr []"
| "plainFieldsLoop gv indent (field # rest) =
     (case gv (Field field) (FieldPath field) (indent + 1) of
        Inl err \<Rightarrow> Inl err
      | Inr fieldValue \<Rightarrow>
          (case plainFieldsLoop gv indent rest of
             Inl err \<Rightarrow> Inl err
           | Inr r \<Rightarrow>
               Inr (Repeat (gs ''  '') indent @ Name field @ gs '': ''
                    @ (if HasChildren field then [10] else []) @ fieldValue
                    @ (if rest \<noteq> [] then [10] else []) @ r)))"

fun docBanner :: "gostring \<Rightarrow> FieldInfo list \<Rightarrow> gostring" where
  "docBanner indentStr [] = []"
| "docBanner indentStr (field # rest) =
     (if Comment field \<noteq> []
      then indentStr @ gs ''# '' @ Name field @ gs ''('' @ TypeString (FieldType field) @ gs ''):''
           @ Comment field @ [10]
      else [])
     @ (if HasChildren field then [] else docBanner indentStr rest)"

definition generateStructDoc :: "render \<Rightarrow> FieldInfo list \<Rightarrow> nat \<Rightarrow> yerror + gostring" where
  "generateStructDoc gv flds indent =
     (let indentStr = Repeat (gs ''  '') indent in
      case plainFieldsLoop gv indent flds of
        Inl err \<Rightarrow> Inl err
      | Inr r \<Rightarrow>
          Inr (indentStr @ replicate 44 35 @ [10] @ docBanner indentStr flds
               @ indentStr @ replicate 43 35 @ [10, 10] @ r))"

text \<open>The struct whose fields \<open>generateAllComments\<close> descends into, with the path suffix.\<close>

fun structOf :: "gval \<Rightarrow> (StructField \<times> gval) list option" where
  "structOf (VStruct fs) = Some fs"
| "structOf (VPtr (Some (VStruct fs))) = Some fs"
| "structOf v = None"

fun subStruct :: "gval \<Rightarrow> ((StructField \<times> gval) list \<times> gostring) option" where
  "subStruct (VStruct fs) = Some (fs, [])"
| "subStruct (VPtr (Some (VStruct fs))) = Some (fs, [])"
| "subStruct (VSlice (firstItem # xs)) = map_option (\<lambda>fs. (fs, gs ''[0]'')) (structOf firstItem)"
| "subStruct (VArray (firstItem # xs)) = map_option (\<lambda>fs. (fs, gs ''[0]'')) (structOf firstItem)"
| "subStruct (VMap ((k, value) # es)) = map_option (\<lambda>fs. (fs, gs ''[key]'')) (structOf value)"
| "subStruct v = None"

definition emptyOptions :: Options where
  "emptyOptions = \<lparr> Style = 0, Comments = [] \<rparr>"

text \<open>The lines of the fields collected below a field with children.\<close>

definition subFieldsOf :: "FieldInfo \<Rightarrow> FieldInfo list" where
  "subFieldsOf field =
     (if HasChildren field then
        (case subStruct (Field field) of
           Some (fs, suffix) \<Rightarrow> collectFieldInfo fs (FieldPath field @ suffix) emptyOptions
         | None \<Rightarrow> [])
      else [])"

lemma structOf_size: "structOf v = Some fs \<Longrightarrow> size_list (size_prod (\<lambda>x. 0) size) fs < size v"
  by (induction v rule: structOf.induct) auto

lemma subStruct_size:
  "subStruct v = Some (fs, suffix) \<Longrightarrow> size_list (size_prod (\<lambda>x. 0) size) fs < size v"
  by (induction v rule: subStruct.induct) (auto dest!: structOf_size)

lemma collectFieldInfo_size:
  "sum_list (map (\<lambda>f. Suc (size (Field f))) (collectFieldInfo fs p opts))
     \<le> size_list (size_prod (\<lambda>x. 0) size) fs"
proof (induction fs)
  case Nil
  then show ?case by simp
next
  case (Cons a fs)
  obtain fieldType field where a: "a = (fieldType, field)" by (cases a)
  from Cons show ?case by (simp add: a Let_def)
qed

lemma subFieldsOf_size:
  "sum_list (map (\<lambda>f. Suc (size (Field f))) (subFieldsOf field)) < Suc (size (Field field))"
proof (cases "HasChildren field")
  case False
  then show ?thesis by (simp add: subFieldsOf_def)
next
  case True
  show ?thesis
  proof (cases "subStruct (Field field)")
    case None
    with True show ?thesis by (simp add: subFieldsOf_def)
  next
    case (Some a)
    obtain fs suffix where a: "a = (fs, suffix)" by (cases a)
    from subStruct_size [of "Field field" fs suffix] Some a
    have "size_list (size_prod (\<lambda>x. 0) size) fs < size (Field field)" by simp
    with collectFieldInfo_size [of fs "FieldPath field @ suffix" emptyOptions]
    show ?thesis using True Some a by (simp add: subFieldsOf_def)
  qed
qed

function generateAllComments :: "FieldInfo list \<Rightarrow> nat \<Rightarrow> gostring" where
  "generateAllComments [] indent = []"
| "generateAllComments (field # rest) indent =
     gs ''# '' @ Repeat (gs ''  '') indent @ Name field @ gs ''('' @ TypeString (FieldType field)
       @ gs ''):'' @ Comment field @ [10]
     @ (if length (subFieldsOf field) > 0 then generateAllComments (subFieldsOf field) (indent + 1)
        else [])
     @ generateAllComments rest indent"
  by pat_completeness auto
termination
proof (relation "measure (\<lambda>(flds, indent). sum_list (map (\<lambda>f. Suc (size (Field f))) flds))")
  show "wf (measure (\<lambda>(flds, indent). sum_list (map (\<lambda>f. Suc (size (Field f))) flds)))"
    by simp
next
  fix field :: FieldInfo and rest :: "FieldInfo list" and indent :: nat
  show "((subFieldsOf field, indent + 1), field # rest, indent)
      \<in> measure (\<lambda>(flds, indent). sum_list (map (\<lambda>f. Suc (size (Field f))) flds))"
    using subFieldsOf_size [of field] by simp
next
  fix field :: FieldInfo and rest :: "FieldInfo list" and indent :: nat
  show "((rest, indent), field # rest, indent)
      \<in> measure (\<lambda>(flds, indent). sum_list (map (\<lambda>f. Suc (size (Field f))) flds))"
    by simp
qed

definition generateStructSeparate :: "render \<Rightarrow> FieldInfo list \<Rightarrow> nat \<Rightarrow> yerror + gostring" where
  "generateStructSeparate gv flds indent =
     (case plainFieldsLoop gv indent flds of
        Inl err \<Rightarrow> Inl err
      | Inr r \<Rightarrow>
          Inr ((if indent = 0
                then replicate 44 35 @ [10] @ generateAllComments flds 0 @ replicate 43 35 @ [10, 10]
                else [])
               @ r))"

text \<open>
  The groups of \<open>generateStructSectioned\<close>: a field with children starts a group of
  its own; the first field without children starts a simple group; every later
  field without children is added to whatever group is last. Adding to the last
  group of an empty list would be an index out of range.
\<close>

fun groupFields ::
    "bool \<Rightarrow> (FieldInfo list \<times> bool) list \<Rightarrow> FieldInfo list \<Rightarrow> (FieldInfo list \<times> bool) list option" where
  "groupFields old_hc_label fieldInfoArrs [] = Some fieldInfoArrs"
| "groupFields old_hc_label fieldInfoArrs (field # rest) =
     (if HasChildren field then groupFields old_hc_label (fieldInfoArrs @ [([field], False)]) rest
      else if old_hc_label then groupFields False (fieldInfoArrs @ [([field], True)]) rest
      else if fieldInfoArrs = [] then None
      else groupFields old_hc_label
             (butlast fieldInfoArrs @ [(fst (last fieldInfoArrs) @ [field], snd (last fieldInfoArrs))])
             rest)"

fun sectionComments :: "gostring \<Rightarrow> FieldInfo list \<Rightarrow> gostring" where
  "sectionComments indentStr [] = []"
| "sectionComments indentStr (field # rest) =
     (if Comment field \<noteq> [] then indentStr @ gs ''# '' @ Comment field @ [10] else [])
     @ sectionComments indentStr rest"

fun simpleFieldsLoop :: "render \<Rightarrow> nat \<Rightarrow> FieldInfo list \<Rightarrow> yerror + gostring" where
  "simpleFieldsLoop gv indent [] = Inr []"
| "simpleFieldsLoop gv indent (field # rest) =
     (case gv (Field field) (FieldPath field) (indent + 1) of
        Inl err \<Rightarrow> Inl err
      | Inr fieldValue \<Rightarrow>
          (case simpleFieldsLoop gv indent rest of
             Inl err \<Rightarrow> Inl err
           | Inr r \<Rightarrow>
               Inr (Repeat (gs ''  '') indent @ Name field @ gs '': '' @ gs '' '' @ TrimSpace fieldValue
                    @ (if rest \<noteq> [] then [10] else []) @ r)))"

fun complexFieldsLoop :: "render \<Rightarrow> nat \<Rightarrow> FieldInfo list \<Rightarrow> yerror + gostring" where
  "complexFieldsLoop gv indent [] = Inr []"
| "complexFieldsLoop gv indent (field # rest) =
     (case gv (Field field) (FieldPath field) (indent + 1) of
        Inl err \<Rightarrow> Inl err
      | Inr fieldValue \<Rightarrow>
          (case complexFieldsLoop gv indent rest of
             Inl err \<Rightarrow> Inl err
           | Inr r \<Rightarrow>
               Inr ((if Comment field \<noteq> []
                     then Repeat (gs ''  '') indent @ gs ''# '' @ Comment field @ [10] else [])
                    @ Repeat (gs ''  '') indent @ Name field @ gs '': ''
                    @ (if HasPrefix (TrimSpace fieldValue) (gs ''#'') then [10] else [])
                    @ fieldValue
                    @ (if rest \<noteq> [] then [10] else []) @ r)))"

fun sectionsLoop :: "render \<Rightarrow> nat \<Rightarrow> (FieldInfo list \<times> bool) list \<Rightarrow> yerror + gostring" where
  "sectionsLoop gv indent [] = Inr []"
| "sectionsLoop gv indent ((flds, isSimple) # rest) =
     (case (if isSimple
            then (case simpleFieldsLoop gv indent flds of
                    Inl err \<Rightarrow> Inl err
                  | Inr s \<Rightarrow>
                      Inr (sectionComments (Repeat (gs ''  '') indent) flds @ [10] @ s
                           @ (if length flds > 0 then [10] else [])))
            else (case complexFieldsLoop gv indent flds of
                    Inl err \<Rightarrow> Inl err
                  | Inr s \<Rightarrow> Inr ([10] @ s))) of
        Inl err \<Rightarrow> Inl err
      | Inr s \<Rightarrow>
          (case sectionsLoop gv indent rest of
             Inl err \<Rightarrow> Inl err
           | Inr r \<Rightarrow> Inr (s @ r)))"

definition generateStructSectioned :: "render \<Rightarrow> FieldInfo list \<Rightarrow> nat \<Rightarrow> yerror + gostring" where
  "generateStructSectioned gv flds indent =
     (case groupFields True [] flds of
        None \<Rightarrow> Inl GoPanic
      | Some fieldInfoArrs \<Rightarrow> sectionsLoop gv indent fieldInfoArrs)"

definition generateStruct ::
    "render \<Rightarrow> (StructField \<times> gval) list \<Rightarrow> gostring \<Rightarrow> nat \<Rightarrow> Options \<Rightarrow> yerror + gostring" where
  "generateStruct gv val fieldPath indent options =
     (let flds = collectFieldInfo val fieldPath options in
      if length flds = 0 then Inr (gs '' {}'' @ [10])
      else
        (case (if Style options = StyleDoc then generateStructDoc gv flds indent
               else if Style options = StyleSeparate then generateStructSeparate gv flds indent
               else if Style options = StyleSectioned then generateStructSectioned gv flds indent
               else generateStructDefault gv flds indent options) of
           Inl err \<Rightarrow> Inl err
         | Inr result \<Rightarrow> Inr (result @ [10])))"

section \<open>Containers\<close>

fun mapLoop :: "golib \<Rightarrow> render \<Rightarrow> gostring \<Rightarrow> nat \<Rightarrow> (gostring \<times> gval) list \<Rightarrow> yerror + gostring" where
  "mapLoop L gv fieldPath indent [] = Inr []"
| "mapLoop L gv fieldPath indent ((key, value) # rest) =
     (let keyStr = (if needsQuoting L key then fmtQ L key else key) in
      case gv value fieldPath (indent + 1) of
        Inl err \<Rightarrow> Inl err
      | Inr valueStr \<Rightarrow>
          (case mapLoop L gv fieldPath indent rest of
             Inl err \<Rightarrow> Inl err
           | Inr r \<Rightarrow>
               Inr (Repeat (gs ''  '') indent @ keyStr @ gs '':''
                    @ (if hasChildren value then [10] @ valueStr
                       else gs '' '' @ TrimSpace valueStr @ [10])
                    @ r)))"

definition generateMap ::
    "golib \<Rightarrow> render \<Rightarrow> (gostring \<times> gval) list \<Rightarrow> gostring \<Rightarrow> nat \<Rightarrow> yerror + gostring" where
  "generateMap L gv val fieldPath indent =
     (if length val = 0 then Inr (gs '' {}'') else mapLoop L gv fieldPath indent val)"

text \<open>The line that gets the dash: the first one that is neither blank nor a comment.\<close>

fun dashFirstLine :: "gostring \<Rightarrow> gostring list \<Rightarrow> gostring list" where
  "dashFirstLine indentStr [] = []"
| "dashFirstLine indentStr (line # rest) =
     (if TrimSpace line \<noteq> [] \<and> \<not> HasPrefix (TrimSpace line) (gs ''#'')
      then (indentStr @ gs ''- '' @ TrimSpace line) # rest
      else line # dashFirstLine indentStr rest)"

definition addDashPrefix :: "gostring \<Rightarrow> gostring \<Rightarrow> bool \<Rightarrow> gostring" where
  "addDashPrefix content indentStr keepComments =
     (let lines = Split content 10;
          lines = (if \<not> keepComments
                   then filter (\<lambda>line. TrimSpace line \<noteq> [] \<and> \<not> HasPrefix (TrimSpace line) (gs ''#'')) lines
                   else lines)
      in Join (dashFirstLine indentStr lines) [10])"

fun sliceLoop :: "render \<Rightarrow> gostring \<Rightarrow> nat \<Rightarrow> nat \<Rightarrow> gval list \<Rightarrow> yerror + gostring" where
  "sliceLoop gv fieldPath indent i [] = Inr []"
| "sliceLoop gv fieldPath indent i (item # rest) =
     (case gv item fieldPath (indent + 1) of
        Inl err \<Rightarrow> Inl err
      | Inr itemStr \<Rightarrow>
          (case sliceLoop gv fieldPath indent (i + 1) rest of
             Inl err \<Rightarrow> Inl err
           | Inr r \<Rightarrow>
               if hasChildren item then
                 Inr (addDashPrefix itemStr (Repeat (gs ''  '') indent) (i = 0)
                      @ (if rest = [] then [10] else []) @ r)
               else
                 Inr ((if i = 0 then [10] else [])
                      @ (if TrimSpace itemStr \<noteq> []
                         then Repeat (gs ''  '') indent @ gs ''- '' @ TrimSpace itemStr @ [10]
                         else Repeat (gs ''  '') indent @ gs ''-'' @ [10])
                      @ r)))"

definition generateSlice :: "render \<Rightarrow> gval list \<Rightarrow> gostring \<Rightarrow> nat \<Rightarrow> yerror + gostring" where
  "generateSlice gv val fieldPath indent =
     (if length val = 0 then Inr (gs '' []'' @ [10]) else sliceLoop gv fieldPath indent 0 val)"

section \<open>The value renderer and the entry point\<close>

definition generateFloat :: "FloatKind \<Rightarrow> gfloat \<Rightarrow> yerror + gostring" where
  "generateFloat kind floatVal =
     (case floatVal of FNaN \<Rightarrow> Inl InvalidFloat | FInf \<Rightarrow> Inl InvalidFloat | FFinite text \<Rightarrow> Inr text)"

definition generateBool :: "bool \<Rightarrow> yerror + gostring" where
  "generateBool b = Inr (if b then gs ''true'' else gs ''false'')"

text \<open>
  \<open>generateValue\<close> recurses into the fields, entries, elements and pointees of the
  value. The first argument bounds the depth of that recursion in the model (the Go
  function has no such bound); a value nested deeper yields \<open>OutOfFuel\<close>.
\<close>

fun generateValue :: "golib \<Rightarrow> Options \<Rightarrow> nat \<Rightarrow> render" where
  "generateValue L options 0 val fieldPath indent = Inl OutOfFuel"
| "generateValue L options (Suc n) val fieldPath indent =
     (case val of
        VInvalid \<Rightarrow> Inr (gs ''null'')
      | VStruct fs \<Rightarrow> generateStruct (generateValue L options n) fs fieldPath indent options
      | VMap es \<Rightarrow> generateMap L (generateValue L options n) es fieldPath indent
      | VSlice xs \<Rightarrow> generateSlice (generateValue L options n) xs fieldPath indent
      | VArray xs \<Rightarrow> generateSlice (generateValue L options n) xs fieldPath indent
      | VString str \<Rightarrow> generateString L str
      | VInt kind intVal \<Rightarrow> generateInt kind intVal
      | VUint kind uintVal \<Rightarrow> generateUint kind uintVal
      | VFloat kind floatVal \<Rightarrow> generateFloat kind floatVal
      | VBool b \<Rightarrow> generateBool b
      | VPtr None \<Rightarrow> Inr (gs ''null'')
      | VPtr (Some elem) \<Rightarrow> generateValue L options n elem fieldPath indent
      | VInterface None \<Rightarrow> Inr (gs ''null'')
      | VInterface (Some elem) \<Rightarrow> generateValue L options n elem fieldPath indent
      | VOther canInterface text \<Rightarrow> Inr (if canInterface then text else gs ''null''))"

text \<open>
  The YAML package the generator calls: \<open>yaml.Marshal\<close> of the input, and whether a
  decoder accepts a text (\<open>ValidateYAML\<close> returns nil).
\<close>

record yamllib =
  Marshal :: "gval \<Rightarrow> yerror + gostring"
  Accepts :: "gostring \<Rightarrow> bool"

definition ValidateYAML :: "yamllib \<Rightarrow> gostring \<Rightarrow> yerror option" where
  "ValidateYAML Y data = (if Accepts Y data then None else Some YAMLParsingError)"

text \<open>
  \<open>Gen(v, opts...)\<close>: \<open>options\<close> is the record after the option functions have run on
  the defaults; \<open>v\<close> is \<open>None\<close> for the nil interface.
\<close>

definition Gen :: "golib \<Rightarrow> yamllib \<Rightarrow> nat \<Rightarrow> Options \<Rightarrow> gval option \<Rightarrow> yerror + gostring" where
  "Gen L Y fuel options v =
     (case v of
        None \<Rightarrow> Inl InputNil
      | Some val \<Rightarrow>
          (case (if Style options = StyleMinimal then
                   (case Marshal Y val of
                      Inl err \<Rightarrow> Inl (GenerateFailed err)
                    | Inr yamlData \<Rightarrow> Inr yamlData)
                 else
                   (case val of
                      VPtr None \<Rightarrow> Inl InputPointerNil
                    | _ \<Rightarrow>
                        (case generateValue L options fuel
                                (case val of VPtr (Some elem) \<Rightarrow> elem | _ \<Rightarrow> val) [] 0 of
                           Inl err \<Rightarrow> Inl (GenerateFailed err)
                         | Inr content \<Rightarrow> Inr content))) of
             Inl err \<Rightarrow> Inl err
           | Inr result \<Rightarrow>
               (case ValidateYAML Y result of
                  Some err \<Rightarrow> Inl (ValidationFailed err)
                | None \<Rightarrow> Inr result)))"

section \<open>Reading rendered text\<close>

text \<open>
  A line counts as a comment line when its trimmed text starts with \<open>#\<close>, as blank
  when its trimmed text is empty, and as a content line otherwise: the tests that
  \<open>addDashPrefix\<close> applies to each line.
\<close>

definition isContentLine :: "gostring \<Rightarrow> bool" where
  "isContentLine line = (TrimSpace line \<noteq> [] \<and> \<not> HasPrefix (TrimSpace line) (gs ''#''))"

definition commentLinesOf :: "gostring \<Rightarrow> gostring list" where
  "commentLinesOf text = filter isCommentLine (Split text 10)"

text \<open>The lines \<open>addDashPrefix\<close> keeps of an element's text before it places the dash.\<close>

definition keptLines :: "gostring \<Rightarrow> bool \<Rightarrow> gostring list" where
  "keptLines content keepComments =
     (if keepComments then Split content 10 else filter isContentLine (Split content 10))"

definition firstContentIndex :: "gostring list \<Rightarrow> nat option" where
  "firstContentIndex ls =
     (if list_ex isContentLine ls then Some (length (takeWhile (\<lambda>l. \<not> isContentLine l) ls)) else None)"

text \<open>
  The column at which the text that follows \<open>pre\<close> begins: the display width of what
  stands after the last line break of \<open>pre\<close>.
\<close>

definition lastLine :: "gostring \<Rightarrow> gostring" where
  "lastLine text = rev (takeWhile (\<lambda>r. r \<noteq> 10) (rev text))"

definition columnAfter :: "gostring \<Rightarrow> int" where
  "columnAfter pre = getDisplayWidth (lastLine pre)"


section \<open>Example values\<close>

definition taggedField :: "string \<Rightarrow> string \<Rightarrow> string \<Rightarrow> StructField" where
  "taggedField name comment typeName =
     \<lparr> GoName = gs name, IsExported = True,
       Tag = (gs ''yaml'', gs name)
             # (if comment = [] then [] else [(gs ''yamlc'', gs ''comment='' @ gs comment)]),
       TypeString = gs typeName \<rparr>"

definition styleOptions :: "CommentStyle \<Rightarrow> Options" where
  "styleOptions style = \<lparr> Style = style, Comments = [] \<rparr>"

text \<open>\<open>struct { A int `yaml:"a" yamlc:"comment=first"` }\<close> holding 1.\<close>

definition leafItem :: gval where
  "leafItem = VStruct [(taggedField ''a'' ''first'' ''int'', VInt IntKind.Int 1)]"

text \<open>\<open>struct { Sub Inner `yaml:"sub" yamlc:"comment=nested"` }\<close> around it.\<close>

definition nestedItem :: gval where
  "nestedItem = VStruct [(taggedField ''sub'' ''nested'' ''main.Inner'', leafItem)]"

text \<open>\<open>struct { Inner struct { A int `yaml:"a"` } `yaml:"inner"` }\<close>, without comments.\<close>

definition plainInner :: "(StructField \<times> gval) list" where
  "plainInner = [(taggedField ''a'' '''' ''int'', VInt IntKind.Int 1)]"

definition plainOuter :: gval where
  "plainOuter = VStruct [(taggedField ''inner'' '''' ''main.Inner'', VStruct plainInner)]"


text \<open>
  The YAML package on the inputs of the examples: \<open>yaml.Marshal\<close> writes a nil
  pointer as \<open>null\<close> and a pointer to a struct without fields as \<open>{}\<close>, and the decoder
  accepts these texts and the generator's \<open> {}\<close>.
\<close>

definition yamlSample :: yamllib where
  "yamlSample =
     \<lparr> Marshal = (\<lambda>v. case v of
                        VPtr None \<Rightarrow> Inr (gs ''null'' @ [10])
                      | VPtr (Some (VStruct [])) \<Rightarrow> Inr (gs ''{}'' @ [10])
                      | _ \<Rightarrow> Inl MarshalFailed),
       Accepts = (\<lambda>text. text = gs ''null'' @ [10] \<or> text = gs ''{}'' @ [10]
                          \<or> text = gs '' {}'' @ [10]) \<rparr>"



text \<open>
  A document of nested keys: line \<open>j\<close> is the key \<open>k:\<close> indented by \<open>2 * j\<close> spaces.
\<close>

definition nestedLine :: "nat \<Rightarrow> gostring" where
  "nestedLine j = replicate (2 * j) 32 @ gs ''k:''"

definition nestedDocument :: "nat \<Rightarrow> gostring" where
  "nestedDocument depth = Join (map nestedLine [0..<Suc depth]) [10]"

text \<open>\<open>struct { Sub *Inner `yaml:"sub" yamlc:"comment=nested"` }\<close> around a pointer to it.\<close>

definition pointerItem :: gval where
  "pointerItem = VStruct [(taggedField ''sub'' ''nested'' ''*main.Inner'', VPtr (Some leafItem))]"

text \<open>\<open>struct { Tags interface{} `yaml:"tags" yamlc:"comment=c"` }\<close> holding \<open>[]int{1, 2}\<close>.\<close>

definition listInInterface :: "(StructField \<times> gval) list" where
  "listInInterface =
     [(taggedField ''tags'' ''c'' ''interface {}'',
       VInterface (Some (VSlice [VInt IntKind.Int 1, VInt IntKind.Int 2])))]"

section \<open>Properties\<close>

lemma gs_simps [simp]: "gs [] = []" "gs (c # cs) = of_char c # gs cs"
  by (simp_all add: gs_def)

lemma GetStyleString_cases:
  assumes "0 \<le> n" "n \<le> 10"
  shows "n = StyleTop \<or> n = StyleInline \<or> n = StyleSmart \<or> n = StyleCompact
    \<or> n = StyleMinimal \<or> n = StyleVerbose \<or> n = StyleSpaced \<or> n = StyleGrouped
    \<or> n = StyleSectioned \<or> n = StyleDoc \<or> n = StyleSeparate"
  using assms unfolding style_ordinals by presburger

lemma ToLower_lower_ascii:
  "\<forall>r\<in>set s. 97 \<le> r \<and> r \<le> 122 \<Longrightarrow> ToLower L s = s"
  by (induction s) (auto simp: ToLower_def toLowerRune_def)

lemma ToLower_upperASCII:
  "\<forall>r\<in>set s. 97 \<le> r \<and> r \<le> 122 \<Longrightarrow> ToLower L (upperASCII s) = s"
  by (induction s) (auto simp: ToLower_def toLowerRune_def upperASCII_def)

lemma styleNames_lower:
  "n \<in> set styleNames \<Longrightarrow> \<forall>r\<in>set n. 97 \<le> r \<and> r \<le> 122"
  by (auto simp: styleNames_def)

lemma GetStyleString_in_names: "0 \<le> n \<Longrightarrow> n \<le> 10 \<Longrightarrow> GetStyleString n \<in> set styleNames"
  using GetStyleString_cases [of n] by (auto simp: GetStyleString_def styleNames_def)

lemma GetStyleFromString_name:
  assumes "0 \<le> n" "n \<le> 10" "ToLower L s = GetStyleString n"
  shows "GetStyleFromString L s = n"
  using GetStyleString_cases [OF assms(1,2)] assms(3)
  by (auto simp: GetStyleFromString_def GetStyleString_def Let_def)

text \<open>
  C5. For every ordinal \<open>n\<close> in 0..10 the ordinal-to-name conversion gives the
  canonical lower-case name at position \<open>n\<close> of (top, inline, smart, compact, minimal,
  verbose, spaced, grouped, sectioned, doc, separate), and converting that name back
  gives \<open>n\<close>, also when the name is written in upper case or in any spelling whose
  lower-casing is the name; every ordinal outside 0..10 converts to "smart", and
  every name whose lower-casing is not one of the eleven converts to Smart.
\<close>

theorem style_codec:
  "(0 \<le> n \<and> n \<le> 10 \<longrightarrow>
      GetStyleString n = styleNames ! nat n
      \<and> GetStyleFromString L (GetStyleString n) = n
      \<and> GetStyleFromString L (upperASCII (GetStyleString n)) = n
      \<and> (ToLower L s = GetStyleString n \<longrightarrow> GetStyleFromString L s = n))
   \<and> (n < 0 \<or> 10 < n \<longrightarrow> GetStyleString n = gs ''smart'')
   \<and> (ToLower L s \<notin> set styleNames \<longrightarrow> GetStyleFromString L s = StyleSmart)"
proof (intro conjI impI)
  assume r: "0 \<le> n \<and> n \<le> 10"
  then have names: "GetStyleString n \<in> set styleNames"
    by (simp add: GetStyleString_in_names)
  then have low: "\<forall>r\<in>set (GetStyleString n). 97 \<le> r \<and> r \<le> 122"
    by (rule styleNames_lower)
  show "GetStyleString n = styleNames ! nat n"
    using GetStyleString_cases [of n] r
    by (auto simp: GetStyleString_def styleNames_def)
  show "GetStyleFromString L (GetStyleString n) = n"
    using r ToLower_lower_ascii [OF low] by (simp add: GetStyleFromString_name)
  show "GetStyleFromString L (upperASCII (GetStyleString n)) = n"
    using r ToLower_upperASCII [OF low] by (simp add: GetStyleFromString_name)
  show "GetStyleFromString L s = n" if "ToLower L s = GetStyleString n"
    using r that by (simp add: GetStyleFromString_name)
next
  assume "n < 0 \<or> 10 < n"
  then show "GetStyleString n = gs ''smart''"
    by (auto simp: GetStyleString_def)
next
  assume "ToLower L s \<notin> set styleNames"
  then show "GetStyleFromString L s = StyleSmart"
    by (simp add: GetStyleFromString_def styleNames_def Let_def)
qed

theorem style_codec_witness:
  "GetStyleString 3 = gs ''compact''
   \<and> GetStyleFromString plainLib (gs ''compact'') = 3
   \<and> GetStyleFromString plainLib (gs ''COMPACT'') = 3
   \<and> GetStyleFromString plainLib (gs ''CoMpAcT'') = 3
   \<and> GetStyleString 999 = gs ''smart''
   \<and> GetStyleFromString plainLib (gs ''unknown'') = StyleSmart"
proof -
  have a: "(0::int) \<le> 3 \<and> (3::int) \<le> 10" by simp
  have b: "ToLower plainLib (gs ''CoMpAcT'') = GetStyleString 3"
    by (simp add: ToLower_def toLowerRune_def GetStyleString_def)
  have c: "(999::int) < 0 \<or> (10::int) < 999" by simp
  have d: "ToLower plainLib (gs ''unknown'') \<notin> set styleNames"
    by (simp add: ToLower_def toLowerRune_def styleNames_def)
  have e: "GetStyleString 3 = gs ''compact''" "upperASCII (gs ''compact'') = gs ''COMPACT''"
    by (simp_all add: GetStyleString_def upperASCII_def)
  from style_codec [of 3 plainLib "gs ''CoMpAcT''"] a b
  have 1: "GetStyleFromString plainLib (GetStyleString 3) = 3"
    "GetStyleFromString plainLib (upperASCII (GetStyleString 3)) = 3"
    "GetStyleFromString plainLib (gs ''CoMpAcT'') = 3"
    by blast+
  from style_codec [of 999 plainLib "gs ''unknown''"] c d
  have 2: "GetStyleString 999 = gs ''smart''" "GetStyleFromString plainLib (gs ''unknown'') = StyleSmart"
    by blast+
  from 1 2 e show ?thesis by simp
qed

subsection \<open>Integer rendering\<close>

text \<open>
  C8. A signed value of declared width 8, 16 or 32 is rejected exactly when it lies
  outside the range of that width, and is otherwise written in decimal; a 64-bit
  signed value is never checked and always written in decimal; unsigned values of
  width 8, 16 or 32 are rejected exactly when they exceed the maximum of the width,
  and are otherwise written in decimal.
\<close>

theorem int_range_check:
  "(intRange k = Some (lo, hi) \<longrightarrow> (isl (generateInt k v) \<longleftrightarrow> sint v < lo \<or> hi < sint v))
   \<and> (\<not> isl (generateInt k v) \<longrightarrow> generateInt k v = Inr (fmtD (sint v)))
   \<and> generateInt Int64 v = Inr (fmtD (sint v))
   \<and> (uintMax uk = Some m \<longrightarrow> (isl (generateUint uk u) \<longleftrightarrow> m < unat u))
   \<and> (\<not> isl (generateUint uk u) \<longrightarrow> generateUint uk u = Inr (fmtD (int (unat u))))"
  by (cases k; cases uk) (auto simp: generateInt_def generateUint_def intRange_def uintMax_def)

theorem int_range_check_witness:
  "intRange Int8 = Some (-128, 127)
   \<and> isl (generateInt Int8 200)
   \<and> generateInt Int8 100 = Inr (gs ''100'')
   \<and> generateInt Int8 (-128) = Inr (gs ''-128'')
   \<and> generateInt Int64 (-9223372036854775808) = Inr (gs ''-9223372036854775808'')
   \<and> uintMax Uint16 = Some 65535
   \<and> isl (generateUint Uint16 65536)
   \<and> generateUint Uint16 65535 = Inr (gs ''65535'')"
proof -
  have r: "intRange Int8 = Some (-128, 127)" "uintMax Uint16 = Some 65535"
    by (simp_all add: intRange_def uintMax_def)
  have d: "fmtD 100 = gs ''100''" "fmtD (-128) = gs ''-128''" "fmtD 65535 = gs ''65535''"
    "fmtD (-9223372036854775808) = gs ''-9223372036854775808''"
    by (simp_all add: fmtD_def digits10.simps)
  have s: "sint (200 :: 64 word) = 200" "sint (100 :: 64 word) = 100" "sint (-128 :: 64 word) = -128"
    "sint (-9223372036854775808 :: 64 word) = -9223372036854775808"
    "unat (65536 :: 64 word) = 65536" "unat (65535 :: 64 word) = 65535"
    by simp_all
  from int_range_check [of Int8 "-128" 127 200 Uint16 65535 65536] r s
  have 1: "isl (generateInt Int8 200)" "isl (generateUint Uint16 65536)"
    by simp_all
  from int_range_check [of Int8 "-128" 127 100 Uint16 65535 65535] r s d
  have 2: "generateInt Int8 100 = Inr (gs ''100'')" "generateUint Uint16 65535 = Inr (gs ''65535'')"
    by simp_all
  from int_range_check [of Int8 "-128" 127 "-128" Uint16 65535 65535] r s d
  have 3: "generateInt Int8 (-128) = Inr (gs ''-128'')"
    by simp
  from int_range_check [of Int8 "-128" 127 "-9223372036854775808" Uint16 65535 65535] s d
  have 4: "generateInt Int64 (-9223372036854775808) = Inr (gs ''-9223372036854775808'')"
    by simp
  from r 1 2 3 4 show ?thesis by simp
qed

subsection \<open>String quoting\<close>

lemma RuneLen_pos: "0 < RuneLen r"
  by (simp add: RuneLen_def)

lemma numericLoop_later:
  "0 < i \<Longrightarrow> numericLoop L i s = (\<forall>r\<in>set s. IsDigit L r \<or> r = 46 \<or> r = 101 \<or> r = 69)"
  by (induction s arbitrary: i) (auto simp: RuneLen_pos)

lemma isNumericString_looksNumeric: "isNumericString L s = looksNumeric L s"
proof (cases s)
  case Nil
  then show ?thesis by (simp add: isNumericString_def looksNumeric_def)
next
  case (Cons r rs)
  have "ContainsAny s (gs ''0123456789'') = (\<exists>r\<in>set s. 48 \<le> r \<and> r \<le> 57)"
  proof -
    have "\<And>r::nat. (r \<in> set (gs ''0123456789'')) = (48 \<le> r \<and> r \<le> 57)"
      by (simp, arith)
    then show ?thesis by (simp add: ContainsAny_def list_ex_iff)
  qed
  then show ?thesis using Cons
    by (auto simp: isNumericString_def looksNumeric_def numericLoop_later RuneLen_pos)
qed

lemma HasPrefix_space: "HasPrefix s [32] = (s \<noteq> [] \<and> hd s = 32)"
  by (cases s) (auto simp: HasPrefix_def)

lemma HasSuffix_space: "HasSuffix s [32] = (s \<noteq> [] \<and> last s = 32)"
proof (cases s rule: rev_cases)
  case Nil
  then show ?thesis by (simp add: HasSuffix_def)
next
  case (snoc ys y)
  then show ?thesis by (auto simp: HasSuffix_def)
qed

lemma needsQuoting_quotedBySpec: "needsQuoting L s = quotedBySpec L s"
  by (auto simp: needsQuoting_def quotedBySpec_def isNumericString_looksNumeric
      ContainsAny_def list_ex_iff ContainsRune_def HasPrefix_space HasSuffix_space)

text \<open>
  C2, as the specification states it, lists \<open>~\<close> among the characters whose presence
  forces quoting. The code's character set has no \<open>~\<close>: the string \<open>a~b\<close> contains one
  and is rendered unquoted. And not every string is rendered: one that holds a
  control character such as U+0007 meets none of the quoting conditions and is
  rejected, not written unquoted.
\<close>

theorem quoting_tilde_counterexample:
  "ContainsRune (gs ''a~b'') 126 \<and> generateString plainLib (gs ''a~b'') = Inr (gs ''a~b'')
   \<and> \<not> quotedBySpec plainLib [97, 7] \<and> generateString plainLib [97, 7] = Inl (InvalidStringContent 7)"
  by (simp add: ContainsRune_def generateString_def needsQuoting_def yamlKeywords_def
      isNumericString_def IsDigit_def ContainsAny_def yamlSpecialChars_def HasPrefix_def
      HasSuffix_def IsControl_def quotedBySpec_def looksNumeric_def)

text \<open>
  C2, amended. For every string that passes the control-character check, the scalar
  renderer double-quotes it if and only if it is empty, equals a reserved literal,
  looks numeric, contains one of \<open>: # { } [ ] & * ! | > " ' % ? @ `\<close> (the set has no
  \<open>~\<close>; a tilde forces quoting only as the whole string \<open>~\<close>), contains a newline, has
  a leading or trailing space, or begins with \<open>+\<close> or \<open>-\<close>; otherwise it is rendered as
  it is, unquoted.
\<close>

theorem string_quoting:
  assumes "validateStringContent s = None"
  shows "generateString L s = Inr (if quotedBySpec L s then fmtQ L s else s)
     \<and> ((\<exists>t. generateString L s = Inr (34 # t)) \<longleftrightarrow> quotedBySpec L s)"
proof -
  have g: "generateString L s = Inr (if quotedBySpec L s then fmtQ L s else s)"
    using assms by (simp add: generateString_def needsQuoting_quotedBySpec)
  have "\<not> quotedBySpec L s \<Longrightarrow> s \<noteq> [] \<and> hd s \<noteq> 34"
    by (cases s) (auto simp: quotedBySpec_def yamlSpecialChars_def)
  then have "(\<exists>t. generateString L s = Inr (34 # t)) \<longleftrightarrow> quotedBySpec L s"
    unfolding g by (cases s) (auto simp: fmtQ_def)
  with g show ?thesis by simp
qed

theorem string_quoting_witness:
  "validateStringContent (gs ''hello:world'') = None
   \<and> quotedBySpec plainLib (gs ''hello:world'')
   \<and> generateString plainLib (gs ''hello:world'') = Inr (34 # gs ''hello:world'' @ [34])
   \<and> validateStringContent (gs ''hello world'') = None
   \<and> \<not> quotedBySpec plainLib (gs ''hello world'')
   \<and> generateString plainLib (gs ''hello world'') = Inr (gs ''hello world'')"
proof -
  have v: "validateStringContent (gs ''hello:world'') = None"
    "validateStringContent (gs ''hello world'') = None"
    by (simp_all add: IsControl_def)
  have q: "quotedBySpec plainLib (gs ''hello:world'')"
    by (simp add: quotedBySpec_def yamlSpecialChars_def)
  have n: "\<not> quotedBySpec plainLib (gs ''hello world'')"
    by (simp add: quotedBySpec_def yamlSpecialChars_def yamlKeywords_def looksNumeric_def IsDigit_def)
  have f: "fmtQ plainLib (gs ''hello:world'') = 34 # gs ''hello:world'' @ [34]"
    by (simp add: fmtQ_def plainLib_def)
  from string_quoting [OF v(1), of plainLib] q f
  have 1: "generateString plainLib (gs ''hello:world'') = Inr (34 # gs ''hello:world'' @ [34])"
    by simp
  from string_quoting [OF v(2), of plainLib] n
  have 2: "generateString plainLib (gs ''hello world'') = Inr (gs ''hello world'')"
    by simp
  from v q n 1 2 show ?thesis by simp
qed

subsection \<open>Options validation\<close>

lemma commentControlLoop_iff: "(commentControlLoop c \<noteq> None) = badControl c"
  by (induction c) (auto simp: badControl_def)

lemma validateCommentContent_iff:
  "(validateCommentContent c \<noteq> None) = (len c > 1000 \<or> badControl c)"
  using commentControlLoop_iff [of c] by (auto simp: validateCommentContent_def)

lemma validateCommentMap_iff:
  "(validateCommentMap i m \<noteq> None) = (\<exists>(p, c)\<in>set m. p = [] \<or> len c > 1000 \<or> badControl c)"
proof (induction m)
  case Nil
  then show ?case by simp
next
  case (Cons pc m)
  obtain p c where pc: "pc = (p, c)" by (cases pc)
  show ?case using Cons validateCommentContent_iff [of c]
    by (auto simp: pc split: option.splits)
qed

lemma validateCommentMaps_iff:
  "(validateCommentMaps i ms \<noteq> None) =
     (\<exists>m\<in>set ms. case m of None \<Rightarrow> True
        | Some es \<Rightarrow> (\<exists>(p, c)\<in>set es. p = [] \<or> len c > 1000 \<or> badControl c))"
proof (induction ms arbitrary: i)
  case Nil
  then show ?case by simp
next
  case (Cons m ms)
  show ?case
  proof (cases m)
    case None
    then show ?thesis by simp
  next
    case (Some es)
    show ?thesis using Cons [of "i + 1"] validateCommentMap_iff [of i es]
      by (auto simp: Some split: option.splits)
  qed
qed

lemma len_replicate: "len (replicate n r) = n * RuneLen r"
  by (induction n) (simp_all add: len_def)

lemma badControl_replicate:
  "badControl (replicate n r) = (0 < n \<and> IsControl r \<and> r \<noteq> 10 \<and> r \<noteq> 9 \<and> r \<noteq> 13)"
  by (auto simp: badControl_def)

text \<open>
  What the validator decides, for every options value: it returns an error exactly
  when the options value is nil, or the style ordinal is outside 0..10, or some
  override mapping is nil, or some override path is the empty string, or some
  override comment has \<open>len(comment) > 1000\<close> or contains a control character other
  than newline, tab and carriage return.
\<close>

lemma ValidateOptions_iff:
  "(ValidateOptions options \<noteq> None) =
     (case options of
        None \<Rightarrow> True
      | Some opts \<Rightarrow>
          Style opts < 0 \<or> 10 < Style opts
          \<or> (\<exists>m\<in>set (Comments opts). case m of
                 None \<Rightarrow> True
               | Some es \<Rightarrow> (\<exists>(p, c)\<in>set es. p = [] \<or> len c > 1000 \<or> badControl c)))"
  using validateCommentMaps_iff [of 0]
  by (auto simp: ValidateOptions_def split: option.splits)

text \<open>
  The scenarios of the specification: the style ordinal 999 fails, nil options fail,
  a nil mapping, an empty path and a control character fail, and Top-style options
  with one non-empty override mapping pass.
\<close>

lemma ValidateOptions_scenarios:
  "ValidateOptions (Some \<lparr> Style = 999, Comments = [] \<rparr>) \<noteq> None
   \<and> ValidateOptions None \<noteq> None
   \<and> ValidateOptions (Some \<lparr> Style = StyleTop, Comments = [None] \<rparr>) \<noteq> None
   \<and> ValidateOptions (Some \<lparr> Style = StyleTop, Comments = [Some [([], gs ''c'')]] \<rparr>) \<noteq> None
   \<and> ValidateOptions (Some \<lparr> Style = StyleTop, Comments = [Some [(gs ''name'', [7])]] \<rparr>) \<noteq> None
   \<and> ValidateOptions (Some \<lparr> Style = StyleTop,
        Comments = [Some [(gs ''name'', [27979, 35797, 27880, 37322])]] \<rparr>) = None"
proof -
  have 1: "ValidateOptions (Some \<lparr> Style = 999, Comments = [] \<rparr>) \<noteq> None"
    using ValidateOptions_iff [of "Some \<lparr> Style = 999, Comments = [] \<rparr>"] by simp
  have 2: "ValidateOptions None \<noteq> None"
    using ValidateOptions_iff [of None] by simp
  have 3: "ValidateOptions (Some \<lparr> Style = StyleTop, Comments = [None] \<rparr>) \<noteq> None"
    using ValidateOptions_iff [of "Some \<lparr> Style = StyleTop, Comments = [None] \<rparr>"] by simp
  have 4: "ValidateOptions (Some \<lparr> Style = StyleTop, Comments = [Some [([], gs ''c'')]] \<rparr>) \<noteq> None"
    using ValidateOptions_iff [of "Some \<lparr> Style = StyleTop, Comments = [Some [([], gs ''c'')]] \<rparr>"]
    by simp
  have 5: "ValidateOptions (Some \<lparr> Style = StyleTop, Comments = [Some [(gs ''name'', [7])]] \<rparr>) \<noteq> None"
    using ValidateOptions_iff [of "Some \<lparr> Style = StyleTop, Comments = [Some [(gs ''name'', [7])]] \<rparr>"]
    by (simp add: badControl_def IsControl_def)
  have 6: "ValidateOptions (Some \<lparr> Style = StyleTop,
        Comments = [Some [(gs ''name'', [27979, 35797, 27880, 37322])]] \<rparr>) = None"
    using ValidateOptions_iff [of "Some \<lparr> Style = StyleTop,
        Comments = [Some [(gs ''name'', [27979, 35797, 27880, 37322])]] \<rparr>"]
    by (simp add: badControl_def IsControl_def len_def RuneLen_def)
  from 1 2 3 4 5 6 show ?thesis by simp
qed

text \<open>
  C7 bounds an override comment by 1000 characters, and so does the message of
  \<open>validateCommentContent\<close> (\<open>comment too long: %d characters (max 1000)\<close>). The
  comparison is on \<open>len(comment)\<close>, the number of bytes: a comment of 334 copies of
  U+4E2D has 334 characters and no control character, its path is not empty, its
  mapping is not nil and the style is Top, yet it is rejected, as too long with
  1002 characters.
\<close>

theorem ValidateOptions_counts_bytes:
  "ValidateOptions (Some \<lparr> Style = StyleTop, Comments = [Some [(gs ''name'', replicate 334 20013)]] \<rparr>)
     = Some (InvalidComment (gs ''name'') (CommentTooLong 1002))
   \<and> length (replicate 334 (20013::nat)) = 334
   \<and> \<not> badControl (replicate 334 20013)"
  by (simp add: ValidateOptions_def validateCommentContent_def len_replicate RuneLen_def
      badControl_replicate IsControl_def)

subsection \<open>Comment sanitising\<close>

lemma Fields_words:
  "w \<in> set (Fields s) \<Longrightarrow> w \<noteq> [] \<and> (\<forall>r\<in>set w. \<not> IsSpace r)"
proof (induction s arbitrary: w rule: Fields.induct)
  case (1 s)
  show ?case
  proof (cases "dropWhile IsSpace s")
    case Nil
    with "1.prems" show ?thesis by (simp add: Fields.simps [of s])
  next
    case (Cons x xs)
    have nx: "\<not> IsSpace x"
      using Cons hd_dropWhile [of IsSpace s] by auto
    from "1.prems"(1) Cons
    consider "w = x # takeWhile (\<lambda>x. \<not> IsSpace x) xs"
      | "w \<in> set (Fields (dropWhile (\<lambda>x. \<not> IsSpace x) xs))"
      by (auto simp: Fields.simps [of s])
    then show ?thesis
    proof cases
      case 1
      with nx show ?thesis by (auto dest: set_takeWhileD)
    next
      case 2
      from "1.IH" [OF Cons 2] show ?thesis .
    qed
  qed
qed

lemma set_Join: "set (Join ws sep) \<subseteq> (\<Union>w\<in>set ws. set w) \<union> set sep"
  by (induction ws sep rule: Join.induct) auto

lemma sanitizeComment_words:
  "\<exists>ws. sanitizeComment c = Join ws [32] \<and> (\<forall>w\<in>set ws. w \<noteq> [] \<and> (\<forall>r\<in>set w. \<not> IsSpace r))"
proof -
  obtain s where "sanitizeComment c = Join (Fields s) [32]"
    by (auto simp: sanitizeComment_def Let_def)
  then show ?thesis using Fields_words by blast
qed

lemma Join_nil_words: "Join [] [32] = []"
  by simp

lemma getComment_cases:
  "getComment field fieldPath options = []
   \<or> (\<exists>c. getComment field fieldPath options = sanitizeComment c)"
  by (auto simp: getComment_def split: option.splits)

lemma getComment_words:
  "\<exists>ws. getComment field fieldPath options = Join ws [32]
        \<and> (\<forall>w\<in>set ws. w \<noteq> [] \<and> (\<forall>r\<in>set w. \<not> IsSpace r))"
proof -
  from getComment_cases [of field fieldPath options] show ?thesis
  proof
    assume "getComment field fieldPath options = []"
    then have "getComment field fieldPath options = Join [] [32]
        \<and> (\<forall>w\<in>set []. w \<noteq> [] \<and> (\<forall>r\<in>set w. \<not> IsSpace r))"
      by simp
    then show ?thesis by blast
  next
    assume "\<exists>c. getComment field fieldPath options = sanitizeComment c"
    then show ?thesis using sanitizeComment_words by metis
  qed
qed

text \<open>
  C10. Whatever a field's comment was resolved from (an override mapping or any
  of the tags), the string \<open>getComment\<close> returns is a list of words joined by single
  spaces, each word non-empty and free of white space; so it contains no newline,
  tab or carriage return, and the comment line \<open># comment\<close> followed by its line
  break holds exactly one newline.
\<close>

theorem getComment_sanitized:
  "(\<exists>ws. getComment field fieldPath options = Join ws (gs '' '')
         \<and> (\<forall>w\<in>set ws. w \<noteq> [] \<and> (\<forall>r\<in>set w. \<not> IsSpace r)))
   \<and> (\<forall>r\<in>set (getComment field fieldPath options). r \<noteq> 10 \<and> r \<noteq> 9 \<and> r \<noteq> 13)
   \<and> count_list (gs ''# '' @ getComment field fieldPath options @ [10]) 10 = 1"
proof -
  obtain ws where ws: "getComment field fieldPath options = Join ws [32]"
    "\<forall>w\<in>set ws. w \<noteq> [] \<and> (\<forall>r\<in>set w. \<not> IsSpace r)"
    using getComment_words by blast
  have sp: "IsSpace 10" "IsSpace 9" "IsSpace 13"
    by (simp_all add: IsSpace_def)
  have runes: "\<forall>r\<in>set (getComment field fieldPath options). r \<noteq> 10 \<and> r \<noteq> 9 \<and> r \<noteq> 13"
  proof
    fix r assume "r \<in> set (getComment field fieldPath options)"
    with ws(1) set_Join [of ws "[32]"] have "r = 32 \<or> (\<exists>w\<in>set ws. r \<in> set w)"
      by auto
    with ws(2) sp show "r \<noteq> 10 \<and> r \<noteq> 9 \<and> r \<noteq> 13" by auto
  qed
  then have "10 \<notin> set (getComment field fieldPath options)" by blast
  then have "count_list (getComment field fieldPath options) 10 = 0"
    by (simp add: count_list_0_iff)
  then have "count_list (gs ''# '' @ getComment field fieldPath options @ [10]) 10 = 1"
    by simp
  with ws runes show ?thesis by auto
qed

theorem getComment_sanitized_witness:
  "getComment \<lparr> GoName = gs ''Port'', IsExported = True,
        Tag = [(gs ''yaml'', gs ''port''), (gs ''yamlc'', gs ''comment=listen'' @ [10, 9] @ gs ''port  number '')],
        TypeString = gs ''int'' \<rparr>
      (gs ''server.port'') \<lparr> Style = StyleTop, Comments = [Some [(gs ''name'', gs ''x'')]] \<rparr>
     = gs ''listen port number''
   \<and> getComment \<lparr> GoName = gs ''Port'', IsExported = True, Tag = [(gs ''yaml'', gs ''port'')],
        TypeString = gs ''int'' \<rparr>
      (gs ''port'') \<lparr> Style = StyleTop, Comments = [None, Some [(gs ''port'', 13 # gs ''a'' @ [10, 10] @ gs ''b'')]] \<rparr>
     = gs ''a b''
   \<and> 10 \<notin> set (getComment \<lparr> GoName = gs ''Port'', IsExported = True, Tag = [(gs ''yaml'', gs ''port'')],
        TypeString = gs ''int'' \<rparr>
      (gs ''port'') \<lparr> Style = StyleTop, Comments = [None, Some [(gs ''port'', 13 # gs ''a'' @ [10, 10] @ gs ''b'')]] \<rparr>)"
proof -
  have 1: "getComment \<lparr> GoName = gs ''Port'', IsExported = True,
        Tag = [(gs ''yaml'', gs ''port''), (gs ''yamlc'', gs ''comment=listen'' @ [10, 9] @ gs ''port  number '')],
        TypeString = gs ''int'' \<rparr>
      (gs ''server.port'') \<lparr> Style = StyleTop, Comments = [Some [(gs ''name'', gs ''x'')]] \<rparr>
     = gs ''listen port number''"
    by (simp add: getComment_def tagComment_def TagGet_def HasPrefix_def TrimPrefix_def
        sanitizeComment_def ReplaceAll_def Fields.simps IsSpace_def)
  have 2: "getComment \<lparr> GoName = gs ''Port'', IsExported = True, Tag = [(gs ''yaml'', gs ''port'')],
        TypeString = gs ''int'' \<rparr>
      (gs ''port'') \<lparr> Style = StyleTop, Comments = [None, Some [(gs ''port'', 13 # gs ''a'' @ [10, 10] @ gs ''b'')]] \<rparr>
     = gs ''a b''"
    by (simp add: getComment_def sanitizeComment_def ReplaceAll_def Fields.simps IsSpace_def)
  from getComment_sanitized [of "\<lparr> GoName = gs ''Port'', IsExported = True, Tag = [(gs ''yaml'', gs ''port'')],
        TypeString = gs ''int'' \<rparr>" "gs ''port''"
      "\<lparr> Style = StyleTop, Comments = [None, Some [(gs ''port'', 13 # gs ''a'' @ [10, 10] @ gs ''b'')]] \<rparr>"]
  have 3: "10 \<notin> set (getComment \<lparr> GoName = gs ''Port'', IsExported = True, Tag = [(gs ''yaml'', gs ''port'')],
        TypeString = gs ''int'' \<rparr>
      (gs ''port'') \<lparr> Style = StyleTop, Comments = [None, Some [(gs ''port'', 13 # gs ''a'' @ [10, 10] @ gs ''b'')]] \<rparr>)"
    by blast
  from 1 2 3 show ?thesis by blast
qed

subsection \<open>Sequences\<close>

lemma Split_nonempty: "Split s c \<noteq> []"
  by (induction s) (auto split: list.splits)

lemma Split_no_sep: "l \<in> set (Split s c) \<Longrightarrow> c \<notin> set l"
  by (induction s arbitrary: l) (auto split: if_splits list.splits)

lemma Split_append_sep: "c \<notin> set l \<Longrightarrow> Split (l @ c # s) c = l # Split s c"
  by (induction l) (auto)

lemma Split_no_sep_id: "c \<notin> set l \<Longrightarrow> Split l c = [l]"
  by (induction l) auto

lemma Split_Join: "ls \<noteq> [] \<Longrightarrow> \<forall>l\<in>set ls. c \<notin> set l \<Longrightarrow> Split (Join ls [c]) c = ls"
proof (induction ls "[c]" rule: Join.induct)
  case 1
  then show ?case by simp
next
  case (2 w)
  then show ?case by (simp add: Split_no_sep_id)
next
  case (3 w v ws)
  then show ?case by (simp add: Split_append_sep)
qed

lemma dashFirstLine_length: "length (dashFirstLine ind ls) = length ls"
  by (induction ls) auto

lemma dashFirstLine_char:
  "dashFirstLine ind ls =
     (case firstContentIndex ls of
        None \<Rightarrow> ls
      | Some k \<Rightarrow> ls[k := ind @ gs ''- '' @ TrimSpace (ls ! k)])"
proof (induction ls)
  case Nil
  then show ?case by (simp add: firstContentIndex_def)
next
  case (Cons l ls)
  show ?case
  proof (cases "isContentLine l")
    case True
    then show ?thesis by (simp add: firstContentIndex_def isContentLine_def)
  next
    case False
    then have "dashFirstLine ind (l # ls) = l # dashFirstLine ind ls"
      by (auto simp: isContentLine_def)
    with Cons False show ?thesis
      by (auto simp: firstContentIndex_def split: option.splits if_splits)
  qed
qed

lemma TrimSpace_ends:
  assumes "TrimSpace l \<noteq> []"
  shows "\<not> IsSpace (hd (TrimSpace l)) \<and> \<not> IsSpace (last (TrimSpace l))"
proof -
  define a where "a = dropWhile IsSpace l"
  define b where "b = dropWhile IsSpace (rev a)"
  have t: "TrimSpace l = rev b" by (simp add: TrimSpace_def a_def b_def)
  from assms t have b: "b \<noteq> []" by simp
  then have hb: "\<not> IsSpace (hd b)" unfolding b_def by (rule hd_dropWhile)
  from b have "rev a \<noteq> []" unfolding b_def by auto
  then have a: "a \<noteq> []" by simp
  then have ha: "\<not> IsSpace (hd a)" unfolding a_def by (rule hd_dropWhile)
  have "rev a = takeWhile IsSpace (rev a) @ b" by (simp add: b_def)
  then have "last (rev a) = last b" using b by (metis last_appendR)
  then have lb: "last b = hd a" using a by (simp add: last_rev)
  have "hd (TrimSpace l) = last b" using b t by (simp add: hd_rev)
  moreover have "last (TrimSpace l) = hd b" using b t by (simp add: last_rev)
  ultimately show ?thesis using ha hb lb by simp
qed

lemma TrimSpace_dash:
  assumes "TrimSpace l \<noteq> []" and "\<forall>r\<in>set ind. r = 32"
  shows "TrimSpace (ind @ [45, 32] @ TrimSpace l) = [45, 32] @ TrimSpace l"
proof -
  let ?t = "TrimSpace l"
  have sp: "IsSpace 32" "\<not> IsSpace 45" by (simp_all add: IsSpace_def)
  have 1: "dropWhile IsSpace (ind @ [45, 32] @ ?t) = [45, 32] @ ?t"
    using sp assms(2) by (induction ind) auto
  from TrimSpace_ends [OF assms(1)] have "\<not> IsSpace (last ?t)" by simp
  then have "\<not> IsSpace (hd (rev ?t))" using assms(1) by (simp add: hd_rev)
  then have 2: "dropWhile IsSpace (rev ([45, 32] @ ?t)) = rev ([45, 32] @ ?t)"
    using assms(1) by (cases "rev ?t") auto
  show ?thesis unfolding TrimSpace_def [of "ind @ [45, 32] @ ?t"] 1 2 by simp
qed

lemma Repeat_spaces: "\<forall>r\<in>set (Repeat [32, 32] n). r = 32"
  by (induction n) (simp_all add: Repeat_def)

lemma TrimSpace_set: "set (TrimSpace l) \<subseteq> set l"
proof -
  have "set (TrimSpace l) \<subseteq> set (dropWhile IsSpace l)"
    unfolding TrimSpace_def using set_dropWhileD by fastforce
  then show ?thesis using set_dropWhileD by fastforce
qed

lemma dash_line_props:
  assumes "isContentLine l" and "\<forall>r\<in>set ind. r = 32"
  shows "isContentLine (ind @ [45, 32] @ TrimSpace l)
    \<and> \<not> isCommentLine (ind @ [45, 32] @ TrimSpace l)
    \<and> \<not> isCommentLine l"
proof -
  from assms have t: "TrimSpace l \<noteq> []" by (simp add: isContentLine_def)
  from TrimSpace_dash [OF t assms(2)] show ?thesis using assms(1)
    by (simp add: isContentLine_def isCommentLine_def HasPrefix_def)
qed

lemma filter_comment_dashFirstLine:
  assumes "\<forall>r\<in>set ind. r = 32"
  shows "filter isCommentLine (dashFirstLine ind ls) = filter isCommentLine ls"
proof (induction ls)
  case Nil
  then show ?case by simp
next
  case (Cons l ls)
  show ?case
  proof (cases "isContentLine l")
    case True
    from dash_line_props [OF True assms] True show ?thesis
      by (simp add: isContentLine_def)
  next
    case False
    with Cons show ?thesis by (auto simp: isContentLine_def)
  qed
qed

lemma dashFirstLine_no_newline:
  assumes "\<forall>r\<in>set ind. r = 32"
  shows "\<forall>l\<in>set ls. 10 \<notin> set l \<Longrightarrow> \<forall>l\<in>set (dashFirstLine ind ls). 10 \<notin> set l"
proof (induction ls)
  case Nil
  then show ?case by simp
next
  case (Cons l ls)
  have "10 \<notin> set (TrimSpace l)" using Cons.prems TrimSpace_set [of l] by auto
  moreover have "10 \<notin> set ind" using assms by auto
  ultimately show ?case using Cons by auto
qed

lemma addDashPrefix_Join:
  "addDashPrefix content ind keep = Join (dashFirstLine ind (keptLines content keep)) [10]"
  by (simp add: addDashPrefix_def keptLines_def isContentLine_def Let_def cong: filter_cong)

lemma lines_addDashPrefix:
  assumes "keptLines content keep \<noteq> []" and "\<forall>r\<in>set ind. r = 32"
  shows "Split (addDashPrefix content ind keep) 10 = dashFirstLine ind (keptLines content keep)"
proof -
  have nl: "\<forall>l\<in>set (keptLines content keep). 10 \<notin> set l"
    by (auto simp: keptLines_def dest: Split_no_sep)
  have ne: "dashFirstLine ind (keptLines content keep) \<noteq> []"
    using assms(1) dashFirstLine_length [of ind "keptLines content keep"]
    by (metis length_0_conv)
  show ?thesis
    using Split_Join [OF ne dashFirstLine_no_newline [OF assms(2) nl]]
    by (simp add: addDashPrefix_Join)
qed

lemma comments_kept_first:
  assumes "\<forall>r\<in>set ind. r = 32"
  shows "commentLinesOf (addDashPrefix content ind True) = commentLinesOf content"
proof -
  have "keptLines content True \<noteq> []" by (simp add: keptLines_def Split_nonempty)
  from lines_addDashPrefix [OF this assms] show ?thesis
    by (simp add: commentLinesOf_def filter_comment_dashFirstLine [OF assms] keptLines_def)
qed

lemma comments_stripped_later:
  assumes "\<forall>r\<in>set ind. r = 32"
  shows "commentLinesOf (addDashPrefix content ind False) = []"
proof (cases "keptLines content False = []")
  case True
  then have "addDashPrefix content ind False = []"
    by (simp add: addDashPrefix_Join)
  then show ?thesis by (simp add: commentLinesOf_def isCommentLine_def TrimSpace_def HasPrefix_def)
next
  case False
  have "filter isCommentLine (keptLines content False) = []"
    by (auto simp: keptLines_def isContentLine_def isCommentLine_def filter_empty_conv)
  with lines_addDashPrefix [OF False assms] show ?thesis
    by (simp add: commentLinesOf_def filter_comment_dashFirstLine [OF assms])
qed

lemma sliceLoop_children:
  assumes "\<forall>item\<in>set items. hasChildren item"
    and "map (\<lambda>item. gv item fieldPath (indent + 1)) items = map Inr rs"
  shows "sliceLoop gv fieldPath indent i items
     = Inr (concat (map (\<lambda>k. addDashPrefix (rs ! k) (Repeat (gs ''  '') indent) (i + k = 0)) [0..<length rs])
            @ (if items = [] then [] else [10]))"
  using assms
proof (induction items arbitrary: i rs)
  case Nil
  then show ?case by simp
next
  case (Cons item items)
  from Cons.prems(2) obtain r rs' where rs: "rs = r # rs'"
    and r: "gv item fieldPath (indent + 1) = Inr r"
    and rest: "map (\<lambda>item. gv item fieldPath (indent + 1)) items = map Inr rs'"
    by (cases rs) auto
  have len: "length rs' = length items" using rest by (metis length_map)
  from Cons.prems(1) have ch: "hasChildren item" "\<forall>item\<in>set items. hasChildren item" by auto
  note ih = Cons.IH [OF ch(2) rest, of "i + 1"]
  define f where "f = (\<lambda>k. addDashPrefix ((r # rs') ! k) (Repeat (gs ''  '') indent) (i + k = 0))"
  have "[0..<length (r # rs')] = 0 # map Suc [0..<length rs']"
    by (simp add: upt_conv_Cons map_Suc_upt del: upt_Suc)
  then have "map f [0..<length (r # rs')] = f 0 # map (f \<circ> Suc) [0..<length rs']"
    by simp
  moreover have "f 0 = addDashPrefix r (Repeat (gs ''  '') indent) (i = 0)"
    by (simp add: f_def)
  moreover have "f \<circ> Suc = (\<lambda>k. addDashPrefix (rs' ! k) (Repeat (gs ''  '') indent) (i + 1 + k = 0))"
    by (auto simp: f_def)
  ultimately have shift: "map f [0..<length (r # rs')]
     = addDashPrefix r (Repeat (gs ''  '') indent) (i = 0)
       # map (\<lambda>k. addDashPrefix (rs' ! k) (Repeat (gs ''  '') indent) (i + 1 + k = 0)) [0..<length rs']"
    by simp
  have "sliceLoop gv fieldPath indent i (item # items)
      = Inr (concat (map f [0..<length (r # rs')]) @ [10])"
    unfolding shift using r ch(1) ih len by (cases items) auto
  then show ?case by (simp add: rs f_def)
qed

text \<open>
  For a non-empty sequence whose elements all have children, \<open>generateSlice\<close>
  returns the elements' blocks one after the other and a final line break, the
  block of element \<open>k\<close> being \<open>addDashPrefix\<close> of its sub-render, with comments kept
  for \<open>k = 0\<close> only. The block of element 0 has exactly the comment lines of its
  sub-render; the block of every later element has no comment line; and in every
  block the first line that is neither blank nor a comment, when the block has one,
  is replaced by the indentation, \<open>- \<close> and the trimmed line.
\<close>

lemma generateSlice_blocks:
  assumes "items \<noteq> []"
    and "\<forall>item\<in>set items. hasChildren item"
    and "map (\<lambda>item. gv item fieldPath (indent + 1)) items = map Inr rs"
    and "ind = Repeat (gs ''  '') indent"
  shows "generateSlice gv items fieldPath indent
           = Inr (concat (map (\<lambda>k. addDashPrefix (rs ! k) ind (k = 0)) [0..<length rs]) @ [10])
     \<and> commentLinesOf (addDashPrefix (rs ! 0) ind True) = commentLinesOf (rs ! 0)
     \<and> (\<forall>k. 0 < k \<longrightarrow> commentLinesOf (addDashPrefix (rs ! k) ind False) = [])
     \<and> (\<forall>k. addDashPrefix (rs ! k) ind (k = 0)
              = Join (case firstContentIndex (keptLines (rs ! k) (k = 0)) of
                        None \<Rightarrow> keptLines (rs ! k) (k = 0)
                      | Some j \<Rightarrow> (keptLines (rs ! k) (k = 0))
                            [j := ind @ gs ''- '' @ TrimSpace (keptLines (rs ! k) (k = 0) ! j)])
                     [10])"
proof -
  have sp: "\<forall>r\<in>set ind. r = 32"
    using Repeat_spaces [of indent] assms(4) by simp
  have 1: "generateSlice gv items fieldPath indent
      = Inr (concat (map (\<lambda>k. addDashPrefix (rs ! k) ind (k = 0)) [0..<length rs]) @ [10])"
    using sliceLoop_children [where gv = gv and items = items and fieldPath = fieldPath
        and indent = indent and rs = rs and i = 0] assms
    by (simp add: generateSlice_def)
  have 2: "commentLinesOf (addDashPrefix (rs ! 0) ind True) = commentLinesOf (rs ! 0)"
    by (rule comments_kept_first [OF sp])
  have 3: "\<forall>k. 0 < k \<longrightarrow> commentLinesOf (addDashPrefix (rs ! k) ind False) = []"
    by (simp add: comments_stripped_later [OF sp])
  have 4: "\<forall>k. addDashPrefix (rs ! k) ind (k = 0)
              = Join (case firstContentIndex (keptLines (rs ! k) (k = 0)) of
                        None \<Rightarrow> keptLines (rs ! k) (k = 0)
                      | Some j \<Rightarrow> (keptLines (rs ! k) (k = 0))
                            [j := ind @ gs ''- '' @ TrimSpace (keptLines (rs ! k) (k = 0) ! j)])
                     [10]"
    by (simp add: addDashPrefix_Join dashFirstLine_char)
  from 1 2 3 4 show ?thesis by blast
qed

lemma leafItem_top:
  "generateValue plainLib (styleOptions StyleTop) 3 leafItem [] 1
     = Inr (gs ''  # first'' @ [10] @ gs ''  a:  1'' @ [10])"
  by code_simp

lemma leafItem_blocks:
  "addDashPrefix (gs ''  # first'' @ [10] @ gs ''  a:  1'' @ [10]) [] True
     = gs ''  # first'' @ [10] @ gs ''- a:  1'' @ [10]"
  "addDashPrefix (gs ''  # first'' @ [10] @ gs ''  a:  1'' @ [10]) [] False = gs ''- a:  1''"
  "commentLinesOf (gs ''  # first'' @ [10] @ gs ''  a:  1'' @ [10]) = [gs ''  # first'']"
  by code_simp+

text \<open>
  Three elements in the Top style. The comment line of the first element is the
  only one that is kept. The blocks of the elements after the first end without a
  line break, so the third element follows the second on the same line.
\<close>

lemma generateSlice_three_elements:
  "generateSlice (generateValue plainLib (styleOptions StyleTop) 3) [leafItem, leafItem, leafItem] [] 0
     = Inr (gs ''  # first'' @ [10] @ gs ''- a:  1'' @ [10] @ gs ''- a:  1'' @ gs ''- a:  1'' @ [10])
   \<and> commentLinesOf (gs ''  # first'' @ [10] @ gs ''- a:  1'' @ [10]) = [gs ''  # first'']
   \<and> commentLinesOf (gs ''- a:  1'') = []"
proof -
  define r where "r = gs ''  # first'' @ [10] @ gs ''  a:  1'' @ [10]"
  define gv where "gv = generateValue plainLib (styleOptions StyleTop) 3"
  have top: "gv leafItem [] (0 + 1) = Inr r"
    using leafItem_top by (simp only: gv_def r_def add_0)
  have b0: "addDashPrefix r [] True = gs ''  # first'' @ [10] @ gs ''- a:  1'' @ [10]"
    and b1: "addDashPrefix r [] False = gs ''- a:  1''"
    and cl: "commentLinesOf r = [gs ''  # first'']"
    using leafItem_blocks by (simp_all only: r_def)
  have a: "[leafItem, leafItem, leafItem] \<noteq> []" by simp
  have b: "\<forall>item\<in>set [leafItem, leafItem, leafItem]. hasChildren item"
    by (simp add: leafItem_def)
  have c: "map (\<lambda>item. gv item [] (0 + 1)) [leafItem, leafItem, leafItem] = map Inr [r, r, r]"
    by (simp only: list.map top)
  have d: "([]::gostring) = Repeat (gs ''  '') 0" by (simp add: Repeat_def)
  have u: "[0..<length [r, r, r]] = [0, 1, 2]" by (simp add: upt_rec)
  note t = generateSlice_blocks [where gv = gv
      and items = "[leafItem, leafItem, leafItem]" and fieldPath = "[]" and indent = 0
      and rs = "[r, r, r]" and ind = "[]", OF a b c d]
  have 1: "generateSlice gv [leafItem, leafItem, leafItem] [] 0
      = Inr (concat (map (\<lambda>k. addDashPrefix ([r, r, r] ! k) [] (k = 0)) [0..<length [r, r, r]]) @ [10])"
    by (rule t [THEN conjunct1])
  have 2: "commentLinesOf (addDashPrefix ([r, r, r] ! 0) [] True) = commentLinesOf ([r, r, r] ! 0)"
    by (rule t [THEN conjunct2, THEN conjunct1])
  have 3: "0 < (1::nat) \<longrightarrow> commentLinesOf (addDashPrefix ([r, r, r] ! 1) [] False) = []"
    by (rule t [THEN conjunct2, THEN conjunct2, THEN conjunct1, THEN spec])
  have r1: "generateSlice gv [leafItem, leafItem, leafItem] [] 0
     = Inr (gs ''  # first'' @ [10] @ gs ''- a:  1'' @ [10] @ gs ''- a:  1'' @ gs ''- a:  1'' @ [10])"
    unfolding 1 u by (simp add: b0 b1)
  have r2: "commentLinesOf (gs ''  # first'' @ [10] @ gs ''- a:  1'' @ [10]) = [gs ''  # first'']"
    using 2 by (simp add: b0 cl)
  have r3: "commentLinesOf (gs ''- a:  1'') = []"
    using 3 by (simp add: b1)
  from r1 r2 r3 show ?thesis unfolding gv_def by blast
qed

text \<open>
  C1 gives every element with children a dash on its first line that is neither
  blank nor a comment. In the Compact style a sequence of two structs, each holding
  one commented struct field with a field of its own, renders as two line breaks:
  \<open>generateCompactStyleField\<close> returns without writing a commented struct, slice or
  map field that has children, the element's text is an empty line, and
  \<open>addDashPrefix\<close> finds no line for the dash. The same sequence gets its two dashes
  in the Top style, and so do, in the Compact style, the sequences whose elements
  hold the field without a comment or hold it behind a pointer. With three
  elements, in the Top style, the dash of the third element is not at the start of
  a line.
\<close>

theorem generateSlice_elements_without_dash:
  "hasChildren nestedItem
   \<and> generateValue plainLib (styleOptions StyleCompact) 4 nestedItem [] 1 = Inr [10]
   \<and> generateValue plainLib (styleOptions StyleCompact) 5 (VSlice [nestedItem, nestedItem]) [] 0
       = Inr [10, 10]
   \<and> generateValue plainLib (styleOptions StyleTop) 5 (VSlice [nestedItem, nestedItem]) [] 0
       = Inr (gs ''  # nested'' @ [10] @ gs ''- sub:'' @ [10] @ gs ''    # first'' @ [10]
              @ gs ''    a:  1'' @ [10, 10] @ gs ''- sub:'' @ [10] @ gs ''    a:  1'' @ [10])
   \<and> generateValue plainLib (styleOptions StyleCompact) 5 (VSlice [plainOuter, plainOuter]) [] 0
       = Inr (gs ''- inner:'' @ [10] @ gs ''    a: 1'' @ [10, 10, 10] @ gs ''- inner:'' @ [10]
              @ gs ''    a: 1'' @ [10])
   \<and> generateValue plainLib (styleOptions StyleCompact) 6 (VSlice [pointerItem, pointerItem]) [] 0
       = Inr (gs ''- sub:  # nested'' @ [10] @ gs ''    a: 1 # first'' @ [10, 10, 10]
              @ gs ''- sub:  # nested'' @ [10] @ gs ''    a: 1 # first'' @ [10])
   \<and> generateValue plainLib (styleOptions StyleTop) 4 (VSlice [leafItem, leafItem, leafItem]) [] 0
       = Inr (gs ''  # first'' @ [10] @ gs ''- a:  1'' @ [10] @ gs ''- a:  1- a:  1'' @ [10])"
  by code_simp

subsection \<open>Inline alignment\<close>



lemma getDisplayWidth_nonneg: "0 \<le> getDisplayWidth s"
  by (induction s) auto

















text \<open>
  A leaf field whose value is rendered over several lines without being a list by
  kind, such as an interface or a pointer that holds a non-empty list of scalars,
  is outside that statement. The width of all its lines, line breaks included, is
  subtracted from the target, and the comment comes after the last element: here
  \<open>#\<close> begins at column 26, for a key of display width 4.
\<close>

lemma inline_value_over_lines:
  "generateValue plainLib (styleOptions StyleInline) 4 (VStruct listInInterface) [] 0
     = Inr (gs ''tags: '' @ [10] @ gs ''- 1'' @ [10] @ gs ''- 2'' @ replicate 23 32 @ gs ''# c'' @ [10, 10])
   \<and> columnAfter (gs ''tags: '' @ [10] @ gs ''- 1'' @ [10] @ gs ''- 2'' @ replicate 23 32) = 26
   \<and> getDisplayWidth (gs ''tags'') + 30 = 34"
  by code_simp

subsection \<open>The line break after a struct level\<close>







subsection \<open>The entry point\<close>

lemma Gen_nil_input: "Gen L Y fuel options None = Inl InputNil"
  by (simp add: Gen_def)

lemma Gen_nil_pointer:
  "Style options \<noteq> StyleMinimal \<Longrightarrow> Gen L Y fuel options (Some (VPtr None)) = Inl InputPointerNil"
  by (simp add: Gen_def)

lemma Gen_empty_struct:
  assumes "Style options \<noteq> StyleMinimal" and "Accepts Y (gs '' {}'' @ [10])"
  shows "Gen L Y (Suc n) options (Some (VPtr (Some (VStruct [])))) = Inr (gs '' {}'' @ [10])"
  using assms by (simp add: Gen_def ValidateYAML_def generateStruct_def)

lemma Gen_minimal:
  "Gen L Y fuel \<lparr> Style = StyleMinimal, Comments = cs \<rparr> (Some val) =
     (case Marshal Y val of
        Inl err \<Rightarrow> Inl (GenerateFailed err)
      | Inr yamlData \<Rightarrow>
          if Accepts Y yamlData then Inr yamlData else Inl (ValidationFailed YAMLParsingError))"
  by (simp add: Gen_def ValidateYAML_def split: sum.splits)

text \<open>
  C3 asks that \<open>Gen\<close> fails on a nil pointer in every style, Minimal included. The
  nil-pointer check stands in the branch of the other styles; in the Minimal style
  the input goes to \<open>yaml.Marshal\<close> unchecked, which writes a nil pointer as \<open>null\<close>,
  a text the validation accepts: \<open>Gen\<close> returns it without error. The nil input
  fails in every style, the nil pointer in every style but Minimal, and a pointer
  to a struct without fields gives \<open> {}\<close> (\<open>{}\<close> in the Minimal style).
\<close>

theorem Gen_minimal_nil_pointer:
  "Gen plainLib yamlSample 3 (styleOptions StyleMinimal) (Some (VPtr None)) = Inr (gs ''null'' @ [10])
   \<and> Gen plainLib yamlSample 3 (styleOptions StyleTop) (Some (VPtr None)) = Inl InputPointerNil
   \<and> Gen plainLib yamlSample 3 (styleOptions StyleMinimal) None = Inl InputNil
   \<and> Gen plainLib yamlSample 3 (styleOptions StyleTop) (Some (VPtr (Some (VStruct []))))
       = Inr (gs '' {}'' @ [10])
   \<and> Gen plainLib yamlSample 3 (styleOptions StyleMinimal) (Some (VPtr (Some (VStruct []))))
       = Inr (gs ''{}'' @ [10])"
  by code_simp

subsection \<open>Structural validation\<close>

lemmas validate_unfold =
  ValidateStructure_def nilSlice_def adjustStack_def appendInt_def reslice_def
  checkKeyValue_def validateKeyName_def SplitN2_def TrimSpace_def TrimLeft_def HasPrefix_def
  HasSuffix_def ContainsRune_def ContainsAny_def yamlSpecialChars_def IsSpace_def len_def
  RuneLen_def Let_def

text \<open>
  Documents without nesting are judged the same way at every capacity. A document
  with one nested level, such as the one that \<open>TestValidateStructure\<close> expects to be
  accepted, is accepted when the stack got room for two levels and makes the call
  panic when it got room for one.
\<close>

lemma ValidateStructure_flat:
  "ValidateStructure grow (gs ''a: 1'' @ [10] @ gs ''b: 2'' @ [10]) = Returns None"
  by (simp add: validate_unfold)

lemma ValidateStructure_odd:
  "ValidateStructure grow (gs ''a:'' @ [10] @ gs '' b: 1'' @ [10]) = Returns (Some (OddIndentation 2))"
  by (simp add: validate_unfold)

lemma ValidateStructure_two_levels:
  "ValidateStructure grow (gs ''a:'' @ [10] @ gs ''  b: 1'' @ [10])
     = (if grow 1 \<le> 1 then Panics else Returns None)"
  by (simp add: validate_unfold)

lemma ValidateStructure_test_document:
  "ValidateStructure grow
     ([10] @ gs ''name: '' @ [24352, 19977] @ [10] @ gs ''age: 30'' @ [10] @ gs ''address:'' @ [10]
      @ gs ''  street: '' @ [20013, 20851, 26449, 22823, 34903] @ gs ''1'' @ [21495] @ [10]
      @ gs ''  city: '' @ [21271, 20140] @ [10]) = (if grow 1 \<le> 1 then Panics else Returns None)"
  by (simp add: validate_unfold)

lemma nestedLine_trim: "TrimSpace (nestedLine j) = gs ''k:''"
proof -
  have sp: "IsSpace 32" "\<not> IsSpace 107" "\<not> IsSpace 58" by (simp_all add: IsSpace_def)
  have "dropWhile IsSpace (replicate (2 * j) 32 @ [107, 58]) = [107, 58]"
    using sp by (induction j) auto
  then show ?thesis using sp by (simp add: TrimSpace_def nestedLine_def)
qed

lemma nestedLine_indent: "len (nestedLine j) - len (TrimLeft (nestedLine j) 32) = 2 * j"
proof -
  have "dropWhile (\<lambda>r. r = 32) (replicate (2 * j) (32::nat) @ [107, 58]) = [107, 58]"
    by (induction j) auto
  then show ?thesis
    by (simp add: nestedLine_def TrimLeft_def len_def RuneLen_def sum_list_replicate)
qed

lemma nestedLine_key: "checkKeyValue [107, 58] lineNum = None"
  by (simp add: checkKeyValue_def ContainsRune_def HasPrefix_def SplitN2_def TrimSpace_def
      IsSpace_def validateKeyName_def HasSuffix_def ContainsAny_def yamlSpecialChars_def)

lemma nestedLine_no_newline: "10 \<notin> set (nestedLine j)"
  by (auto simp: nestedLine_def)

text \<open>One nested line on a stack of length \<open>j\<close>: it fits the capacity, or the call panics.\<close>

lemma validateLines_nested_step:
  assumes "slen st = j" and "0 < j"
  shows "validateLines grow i st (nestedLine j # rest) =
     (if j + 1 \<le> length (backing st)
      then validateLines grow (i + 1)
             (st\<lparr> slen := j + 1, backing := (backing st)[j := int (2 * j)] \<rparr>) rest
      else Panics)"
  using assms
  by (simp add: nestedLine_trim nestedLine_indent nestedLine_key adjustStack_def reslice_def
      HasPrefix_def Let_def)

text \<open>
  Nested lines from level \<open>j\<close> down to a level \<open>d\<close> that is not less than the capacity:
  the stack grows by re-slicing alone, nothing appends to it, and the line at the
  level equal to the capacity re-slices beyond it.
\<close>

lemma validateLines_nested_panics:
  assumes "slen st = j" and "0 < j" and "j \<le> length (backing st)" and "length (backing st) \<le> d"
  shows "validateLines grow i st (map nestedLine [j..<Suc d]) = Panics"
  using assms
proof (induction "length (backing st) - j" arbitrary: st j i)
  case 0
  then have j: "j = length (backing st)" by simp
  have "[j..<Suc d] = j # [Suc j..<Suc d]" using j "0.prems"(4) by (simp add: upt_conv_Cons)
  then show ?case
    using validateLines_nested_step [OF "0.prems"(1,2), of grow i] j by simp
next
  case (Suc n)
  then have lt: "j < length (backing st)" by simp
  define st' where "st' = st\<lparr> slen := j + 1, backing := (backing st)[j := int (2 * j)] \<rparr>"
  have l: "length (backing st') = length (backing st)" by (simp add: st'_def)
  have "[j..<Suc d] = j # [Suc j..<Suc d]"
    using lt Suc.prems(4) by (simp add: upt_conv_Cons)
  then have "validateLines grow i st (map nestedLine [j..<Suc d])
      = validateLines grow (i + 1) st' (map nestedLine [Suc j..<Suc d])"
    using validateLines_nested_step [OF Suc.prems(1,2), of grow i] lt
    by (simp add: st'_def)
  also have "\<dots> = Panics"
  proof (rule Suc.hyps(1))
    show "n = length (backing st') - Suc j" using Suc.hyps(2) l by simp
    show "slen st' = Suc j" by (simp add: st'_def)
    show "0 < Suc j" by simp
    show "Suc j \<le> length (backing st')" using lt l by simp
    show "length (backing st') \<le> d" using Suc.prems(4) l by simp
  qed
  finally show ?case .
qed

text \<open>A document nested to a depth that is not less than the capacity of the stack.\<close>

lemma ValidateStructure_panics_at_depth:
  assumes "0 < d" and "grow 1 \<le> d"
  shows "ValidateStructure grow (nestedDocument d) = Panics"
proof -
  define st where "st = appendInt grow nilSlice (int (2 * 0))"
  have ls: "Split (nestedDocument d) 10 = map nestedLine [0..<Suc d]"
    unfolding nestedDocument_def
    by (rule Split_Join) (auto simp: nestedLine_no_newline)
  have st: "slen st = 1" "length (backing st) = max 1 (grow 1)"
    by (auto simp: st_def appendInt_def nilSlice_def)
  have first: "validateLines grow 0 nilSlice (nestedLine 0 # rest)
      = validateLines grow 1 st rest" for rest
    by (simp add: nestedLine_trim nestedLine_indent nestedLine_key adjustStack_def nilSlice_def
        st_def HasPrefix_def Let_def)
  have "[0..<Suc d] = 0 # [1..<Suc d]" by (simp add: upt_conv_Cons)
  then have "ValidateStructure grow (nestedDocument d)
      = validateLines grow 1 st (map nestedLine [1..<Suc d])"
    using first by (simp add: ValidateStructure_def ls)
  also have "\<dots> = Panics"
    by (rule validateLines_nested_panics) (use assms in \<open>auto simp: st\<close>)
  finally show ?thesis .
qed

lemma nestedDocument_four:
  "nestedDocument 4 = gs ''k:'' @ [10] @ gs ''  k:'' @ [10] @ gs ''    k:'' @ [10]
     @ gs ''      k:'' @ [10] @ gs ''        k:''"
  by (simp add: nestedDocument_def nestedLine_def upt_rec numeral_eq_Suc)

text \<open>
  The five lines \<open>k:\<close>, each indented two spaces more than the line before, make
  the call panic at every capacity up to 4, so at capacity 1 and at capacity 4.
\<close>

lemma ValidateStructure_five_levels:
  assumes "grow 1 \<le> 4"
  shows "ValidateStructure grow (gs ''k:'' @ [10] @ gs ''  k:'' @ [10] @ gs ''    k:'' @ [10]
     @ gs ''      k:'' @ [10] @ gs ''        k:'') = Panics"
  using ValidateStructure_panics_at_depth [of 4 grow] assms by (simp only: nestedDocument_four)

text \<open>
  C9 asks that \<open>ValidateStructure\<close> returns on every input, and that the re-slice of
  the indentation stack one level deeper stays within its capacity. It does not.
  The stack gets its backing array from the one \<open>append\<close> on the first line and
  is only re-sliced afterwards, so whatever capacity \<open>append\<close> gave it, the
  document of nested keys that goes one level deeper than that capacity makes the
  call panic: two nested lines at capacity 1, five at capacity 4.
\<close>

theorem ValidateStructure_panics_any_capacity:
  "ValidateStructure grow (nestedDocument (max 1 (grow 1))) = Panics"
  by (rule ValidateStructure_panics_at_depth) simp_all

end
